theory Spec2Isabelle
  imports Complex_Main "HOL-Library.AList"
begin

section \<open>JavaScript strings, values and objects\<close>

text \<open>
  The application is TypeScript. A string is modelled as a \<^typ>\<open>string\<close>, a list of
  8-bit characters standing for its code units; \<open>undefined\<close> is \<^const>\<open>None\<close>. A
  value that comes out of \<open>JSON.parse\<close> is a \<open>json\<close>, whatever the type annotation
  of the code that receives it says. A plain object used as a dictionary is the list of
  its own properties in the order in which the language enumerates them: the keys that
  are array indices first, in ascending numeric order, then the other keys in insertion
  order. A number is a double: the functions embedded here write only the literal \<open>0\<close>
  (also spelled \<open>0.0\<close>) themselves and get every other number from a built-in parser,
  from the form or from a parsed response.
\<close>

abbreviation nl :: string where "nl \<equiv> [CHR 0x0A]"
abbreviation tab :: string where "tab \<equiv> [CHR 0x09]"
abbreviation sq :: string where "sq \<equiv> [CHR 0x27]"

text \<open>\<open>a || b\<close> on strings: the empty string is falsy.\<close>

definition or_str :: "string \<Rightarrow> string \<Rightarrow> string" where
  "or_str a b = (if a = [] then b else a)"

text \<open>Truthiness of an optional string (\<open>undefined\<close> and \<open>''\<close> are falsy).\<close>

definition truthy_opt :: "string option \<Rightarrow> bool" where
  "truthy_opt v = (case v of None \<Rightarrow> False | Some s \<Rightarrow> s \<noteq> [])"

definition startsWith :: "string \<Rightarrow> string \<Rightarrow> bool" where
  "startsWith s p = (take (length p) s = p)"

definition endsWith :: "string \<Rightarrow> string \<Rightarrow> bool" where
  "endsWith s e = (length e \<le> length s \<and> drop (length s - length e) s = e)"

text \<open>\<open>s.lastIndexOf(c)\<close>: the greatest index holding \<open>c\<close>, or \<open>-1\<close>.\<close>

fun lastIndexOf :: "string \<Rightarrow> char \<Rightarrow> int" where
  "lastIndexOf [] c = - 1"
| "lastIndexOf (x # xs) c =
     (if 0 \<le> lastIndexOf xs c then lastIndexOf xs c + 1
      else if x = c then 0 else - 1)"

text \<open>\<open>s.substring(a, b)\<close> and \<open>s.substring(a)\<close>: arguments are clamped to the string and
  swapped when out of order.\<close>

definition clamp_index :: "string \<Rightarrow> int \<Rightarrow> nat" where
  "clamp_index s i = (if i < 0 then 0 else min (nat i) (length s))"

definition substring :: "string \<Rightarrow> int \<Rightarrow> int \<Rightarrow> string" where
  "substring s a b =
     (let i = clamp_index s a; j = clamp_index s b
      in take (max i j - min i j) (drop (min i j) s))"

definition substringFrom :: "string \<Rightarrow> int \<Rightarrow> string" where
  "substringFrom s a = drop (clamp_index s a) s"

text \<open>\<open>s.split(c)\<close> for a one-character separator: never empty, \<open>''.split(',')\<close> is \<open>['']\<close>.\<close>

fun split :: "string \<Rightarrow> char \<Rightarrow> string list" where
  "split [] c = [[]]"
| "split (x # xs) c =
     (if x = c then [] # split xs c
      else (case split xs c of [] \<Rightarrow> [[x]] | y # ys \<Rightarrow> (x # y) # ys))"

text \<open>\<open>a[i]\<close> on an array: \<open>undefined\<close> out of range.\<close>

fun index_opt :: "'a list \<Rightarrow> nat \<Rightarrow> 'a option" where
  "index_opt [] i = None"
| "index_opt (x # xs) 0 = Some x"
| "index_opt (x # xs) (Suc i) = index_opt xs i"

text \<open>\<open>s.trim()\<close>: white space and line terminators among the 8-bit code units.\<close>

definition isWhiteSpace :: "char \<Rightarrow> bool" where
  "isWhiteSpace c = (c \<in> set [CHR 0x09, CHR 0x0A, CHR 0x0B, CHR 0x0C, CHR 0x0D, CHR 0x20, CHR 0xA0])"

definition trim :: "string \<Rightarrow> string" where
  "trim s = rev (dropWhile isWhiteSpace (rev (dropWhile isWhiteSpace s)))"

text \<open>Decimal rendering of a non-negative integer, as a template literal interpolates an
  array index or a year.\<close>

definition digit :: "nat \<Rightarrow> char" where
  "digit d = char_of (of_char (CHR ''0'') + d)"

fun string_of_nat :: "nat \<Rightarrow> string" where
  "string_of_nat n =
     (if 10 \<le> n then string_of_nat (n div 10) @ [digit (n mod 10)] else [digit n])"

declare string_of_nat.simps [simp del]

datatype jsnum = NaN | Infinity bool | Finite real

datatype jsvalue = VBool bool | VNumber jsnum | VString string

datatype json =
    JNull
  | JBool bool
  | JNum jsnum
  | JStr string
  | JArr "json list"
  | JObj "(string \<times> json) list"

type_synonym 'v obj = "(string \<times> 'v) list"

definition obj_get :: "'v obj \<Rightarrow> string \<Rightarrow> 'v option" where
  "obj_get ob k = map_of ob k"

definition obj_keys :: "'v obj \<Rightarrow> string list" where
  "obj_keys ob = map fst ob"

definition obj_delete :: "'v obj \<Rightarrow> string \<Rightarrow> 'v obj" where
  "obj_delete ob k = AList.delete k ob"

text \<open>An array index is the canonical decimal form of an integer from \<open>0\<close> to
  \<open>4294967294\<close>.\<close>

definition char_in :: "char \<Rightarrow> char \<Rightarrow> char \<Rightarrow> bool" where
  "char_in lo hi c = ((of_char lo :: nat) \<le> of_char c \<and> (of_char c :: nat) \<le> of_char hi)"

definition indexValue :: "string \<Rightarrow> int" where
  "indexValue s = foldl (\<lambda>a c. 10 * a + (of_char c - of_char (CHR ''0''))) 0 s"

definition isArrayIndex :: "string \<Rightarrow> bool" where
  "isArrayIndex s =
     (s \<noteq> [] \<and> list_all (char_in (CHR ''0'') (CHR ''9'')) s
      \<and> (s = ''0'' \<or> take 1 s \<noteq> ''0'') \<and> indexValue s < 4294967295)"

text \<open>A new array index goes after the smaller indices, before everything else.\<close>

fun insertIndex :: "string \<Rightarrow> 'v \<Rightarrow> 'v obj \<Rightarrow> 'v obj" where
  "insertIndex k v [] = [(k, v)]"
| "insertIndex k v ((k', v') # ob) =
     (if isArrayIndex k' \<and> indexValue k' < indexValue k then (k', v') # insertIndex k v ob
      else (k, v) # (k', v') # ob)"

text \<open>Defining an own property, as an object literal with a computed key does
  (\<open>{...ob, [k]: v}\<close>): an own key is overwritten where it stands, a new one takes its
  place in the enumeration order.\<close>

definition obj_define :: "'v obj \<Rightarrow> string \<Rightarrow> 'v \<Rightarrow> 'v obj" where
  "obj_define ob k v =
     (if k \<in> set (obj_keys ob) then AList.update k v ob
      else if isArrayIndex k then insertIndex k v ob
      else ob @ [(k, v)])"

text \<open>The assignment \<open>ob[k] = v\<close> on an object that a literal or a copy has made, as far
  as its own properties go. It defines the own property, but for the key \<open>__proto__\<close>
  when the object does not own it: then the assignment reaches the accessor that every
  plain object inherits, which drops a string and makes an object the prototype, and
  leaves the own properties as they are. It serves where the key cannot be \<open>__proto__\<close>,
  where the value is a string, and for the \<open>settings\<close> of the manifest, which is only
  serialised afterwards, by its own properties. The assignment on an object whose prototype is read later is \<open>tree_set\<close>
  below.\<close>

definition obj_set :: "'v obj \<Rightarrow> string \<Rightarrow> 'v \<Rightarrow> 'v obj" where
  "obj_set ob k v =
     (if k = ''__proto__'' \<and> k \<notin> set (obj_keys ob) then ob else obj_define ob k v)"

text \<open>The built-ins of the language the generator calls, taken as parameters:
  \<open>JSON.stringify(v, null, 4)\<close>, \<open>parseInt(s, 10)\<close>, \<open>parseFloat(s)\<close> and \<open>String(n)\<close>
  on a number. All four are pure.\<close>

record builtins =
  JSON_stringify :: "json \<Rightarrow> string"
  parseInt10 :: "string \<Rightarrow> jsnum"
  parseFloat :: "string \<Rightarrow> jsnum"
  String_of_number :: "jsnum \<Rightarrow> string"

text \<open>\<open>n || 0\<close> on a number: \<open>NaN\<close> and zero are falsy.\<close>

definition or_zero :: "jsnum \<Rightarrow> jsnum" where
  "or_zero n = (if n = NaN \<or> n = Finite 0 then Finite 0 else n)"

text \<open>\<open>!!v\<close> and \<open>String(v)\<close> on a setting's default.\<close>

definition truthy :: "jsvalue \<Rightarrow> bool" where
  "truthy v = (case v of VBool b \<Rightarrow> b
     | VNumber n \<Rightarrow> n \<noteq> NaN \<and> n \<noteq> Finite 0
     | VString s \<Rightarrow> s \<noteq> [])"

definition String_of :: "builtins \<Rightarrow> jsvalue \<Rightarrow> string" where
  "String_of js v = (case v of VBool b \<Rightarrow> (if b then ''true'' else ''false'')
     | VNumber n \<Rightarrow> String_of_number js n
     | VString s \<Rightarrow> s)"

text \<open>Truthiness of a parsed value or \<open>undefined\<close>: \<open>undefined\<close>, \<open>null\<close>,
  \<open>false\<close>, zero and the empty string are falsy, every array and object is truthy.\<close>

definition truthy_json :: "json option \<Rightarrow> bool" where
  "truthy_json v =
     (case v of
        None \<Rightarrow> False
      | Some JNull \<Rightarrow> False
      | Some (JBool b) \<Rightarrow> b
      | Some (JNum n) \<Rightarrow> n \<noteq> NaN \<and> n \<noteq> Finite 0
      | Some (JStr s) \<Rightarrow> s \<noteq> []
      | Some (JArr xs) \<Rightarrow> True
      | Some (JObj ob) \<Rightarrow> True)"

text \<open>The string a parsed value turns into when it is used as a property key: a string is
  itself, an array joins its elements with commas (\<open>null\<close> giving nothing), an object is
  \<open>[object Object]\<close>. An object that owns a property \<open>toString\<close> has no such string:
  what it owns there is not a function, and the conversion throws.\<close>

datatype jsError = TypeError

fun ToString :: "builtins \<Rightarrow> json \<Rightarrow> jsError + string"
  and joinElements :: "builtins \<Rightarrow> json list \<Rightarrow> jsError + string" where
  "ToString js JNull = Inr ''null''"
| "ToString js (JBool b) = Inr (if b then ''true'' else ''false'')"
| "ToString js (JNum n) = Inr (String_of_number js n)"
| "ToString js (JStr s) = Inr s"
| "ToString js (JArr xs) = joinElements js xs"
| "ToString js (JObj ob) =
     (if ''toString'' \<in> set (obj_keys ob) then Inl TypeError else Inr ''[object Object]'')"
| "joinElements js [] = Inr []"
| "joinElements js [x] = (if x = JNull then Inr [] else ToString js x)"
| "joinElements js (x # y # ys) =
     (case (if x = JNull then Inr [] else ToString js x) of
        Inl e \<Rightarrow> Inl e
      | Inr s \<Rightarrow>
          (case joinElements js (y # ys) of
             Inl e \<Rightarrow> Inl e
           | Inr r \<Rightarrow> Inr (s @ '','' @ r)))"

text \<open>Reading a property that no prototype defines (\<open>filePath\<close>, \<open>fileContent\<close>) off a
  parsed value: an object gives its own property or \<open>undefined\<close>, a string, number,
  boolean or array \<open>undefined\<close>, and \<open>null\<close> throws.\<close>

definition field :: "json \<Rightarrow> string \<Rightarrow> json option" where
  "field v k = (case v of JObj ob \<Rightarrow> obj_get ob k | _ \<Rightarrow> None)"

definition property :: "json \<Rightarrow> string \<Rightarrow> jsError + json option" where
  "property v k = (if v = JNull then Inl TypeError else Inr (field v k))"

section \<open>The configuration (types.ts)\<close>

datatype CppTemplate = Menulayer | Playlayer | Settings

datatype ModSettingType = Bool_t | Int_t | Float_t | String_t

record ModSetting =
  s_id :: string
  s_key :: string
  s_name :: string
  s_description :: string
  s_type :: ModSettingType
  s_default :: jsvalue

record Platforms =
  win :: bool
  mac :: bool
  android :: bool
  ios :: bool

record ModData =
  mod_id :: string
  name :: string
  version :: string
  developer :: string
  description :: string
  logo :: "string option"
  dependencies :: string
  repository :: string
  cppTemplate :: CppTemplate
  includeCi :: bool
  platforms :: Platforms
  gdVersion :: string
  geodeVersion :: string
  tags :: string
  providesApi :: bool
  earlyLoad :: bool
  settings :: "ModSetting list"

type_synonym GeneratedFiles = "(json option) obj"

section \<open>The generator (services/modGenerator.ts)\<close>

subsection \<open>The manifest\<close>

text \<open>The platform-version object \<open>gd\<close>: one key per enabled platform, in the order
  of the four tests.\<close>

definition generateModJson_gd :: "ModData \<Rightarrow> json obj" where
  "generateModJson_gd data =
     (let gd0 = [];
          gd1 = (if win (platforms data) then obj_set gd0 ''win'' (JStr (or_str (gdVersion data) ''*'')) else gd0);
          gd2 = (if mac (platforms data) then obj_set gd1 ''mac'' (JStr (or_str (gdVersion data) ''*'')) else gd1);
          gd3 = (if android (platforms data) then obj_set gd2 ''android'' (JStr (or_str (gdVersion data) ''*'')) else gd2);
          gd4 = (if ios (platforms data) then obj_set gd3 ''ios'' (JStr (or_str (gdVersion data) ''*'')) else gd3)
      in gd4)"

text \<open>The function mapped over the dependency tokens: split at the last \<open>@\<close> unless it is
  absent or leads the token.\<close>

definition parseDependency :: "string \<Rightarrow> json" where
  "parseDependency depString =
     (let lastAt = lastIndexOf depString (CHR ''@'')
      in if lastAt > 0 then
           (let id = substring depString 0 lastAt;
                version = substringFrom depString (lastAt + 1)
            in JObj [(''id'', JStr id), (''required'', JBool True), (''version'', JStr (or_str version ''*''))])
         else JObj [(''id'', JStr depString), (''required'', JBool True), (''version'', JStr ''*'')])"

definition generateModJson_dependencies :: "ModData \<Rightarrow> json list" where
  "generateModJson_dependencies data =
     map parseDependency
       (filter (\<lambda>depString. depString \<noteq> [])
          (map trim (split (dependencies data) (CHR '',''))))"

definition typeName :: "ModSettingType \<Rightarrow> string" where
  "typeName t = (case t of Bool_t \<Rightarrow> ''bool'' | Int_t \<Rightarrow> ''int''
     | Float_t \<Rightarrow> ''float'' | String_t \<Rightarrow> ''string'')"

definition defaultValue :: "builtins \<Rightarrow> ModSetting \<Rightarrow> json" where
  "defaultValue js setting =
     (case s_type setting of
        Bool_t \<Rightarrow> JBool (truthy (s_default setting))
      | Int_t \<Rightarrow> JNum (or_zero (parseInt10 js (String_of js (s_default setting))))
      | Float_t \<Rightarrow> JNum (or_zero (parseFloat js (String_of js (s_default setting))))
      | String_t \<Rightarrow> JStr (String_of js (s_default setting)))"

definition generateModJson_settings :: "builtins \<Rightarrow> ModSetting list \<Rightarrow> json obj" where
  "generateModJson_settings js ss =
     fold (\<lambda>setting ob. obj_set ob (s_key setting)
             (JObj [(''name'', JStr (s_name setting)),
                    (''description'', JStr (s_description setting)),
                    (''type'', JStr (typeName (s_type setting))),
                    (''default'', defaultValue js setting)]))
          ss []"

definition modJson :: "builtins \<Rightarrow> ModData \<Rightarrow> json obj" where
  "modJson js data =
     (let m0 = [(''geode'', JStr (or_str (geodeVersion data) ''2.0.0-beta.26'')),
                (''gd'', JObj (generateModJson_gd data)),
                (''id'', JStr (or_str (mod_id data) ''com.developer.modname'')),
                (''name'', JStr (or_str (name data) ''My Awesome Mod'')),
                (''version'', JStr (or_str (version data) ''v1.0.0'')),
                (''developer'', JStr (or_str (developer data) ''Your Name'')),
                (''description'', JStr (or_str (description data) ''A new mod for Geometry Dash''))];
          m1 = (if truthy_opt (logo data) then obj_set m0 ''icon'' (JStr ''logo.png'') else m0);
          m2 = (if repository data \<noteq> [] then obj_set m1 ''repository'' (JStr (repository data)) else m1);
          m3 = (if providesApi data then obj_set m2 ''api'' (JBool True) else m2);
          m4 = (if earlyLoad data then obj_set m3 ''early-load'' (JBool True) else m3);
          m5 = (if tags data \<noteq> []
                then obj_set m4 ''tags''
                       (JArr (map JStr (filter (\<lambda>tag. tag \<noteq> []) (map trim (split (tags data) (CHR '',''))))))
                else m4);
          m6 = (if dependencies data \<noteq> []
                then (if length (generateModJson_dependencies data) > 0
                      then obj_set m5 ''dependencies'' (JArr (generateModJson_dependencies data))
                      else m5)
                else m5);
          m7 = (if length (settings data) > 0
                then obj_set m6 ''settings'' (JObj (generateModJson_settings js (settings data)))
                else m6)
      in m7)"

definition generateModJson :: "builtins \<Rightarrow> ModData \<Rightarrow> string" where
  "generateModJson js data = JSON_stringify js (JObj (modJson js data))"

subsection \<open>The text templates\<close>

definition generateCMakeLists :: "ModData \<Rightarrow> string" where
  \<open>generateCMakeLists data =
     ''cmake_minimum_required(VERSION 3.13)'' @ nl @
     nl @
     ''# Get Geode and its settings'' @ nl @
     ''find_package(Geode REQUIRED)'' @ nl @
     nl @
     ''# Add your project, its sources and link it to Geode'' @ nl @
     ''add_geode_mod('' @ or_str (mod_id data) ''com.developer.modname'' @ nl @
     tab @ ''VERSION '' @ or_str (version data) ''v1.0.0'' @ nl @
     tab @ ''ID "'' @ or_str (mod_id data) ''com.developer.modname'' @ ''"'' @ nl @
     tab @ ''SOURCES'' @ nl @
     tab @ tab @ ''resources/main.cpp'' @ nl @
     tab @ ''RESOURCES'' @ nl @
     tab @ tab @ ''assets'' @ nl @
     '')'' @ nl\<close>

definition generateMenuLayerCpp :: "ModData \<Rightarrow> string" where
  \<open>generateMenuLayerCpp data =
    (let modName = or_str (name data) ''My Awesome Mod'' in
     ''#include <Geode/Geode.hpp>'' @ nl @
     ''#include <Geode/modify/MenuLayer.hpp>'' @ nl @
     nl @
     ''using namespace geode::prelude;'' @ nl @
     nl @
     ''// Adds a label to the main menu'' @ nl @
     ''class $modify(MyMenuLayer, MenuLayer) {'' @ nl @
     tab @ ''bool init() {'' @ nl @
     tab @ tab @ ''if (!MenuLayer::init()) {'' @ nl @
     tab @ tab @ tab @ ''return false;'' @ nl @
     tab @ tab @ ''}'' @ nl @
     nl @
     tab @ tab @ ''try {'' @ nl @
     tab @ tab @ tab @ ''// Log that the mod is initializing'' @ nl @
     tab @ tab @ tab @ ''log::info("Initializing '' @ modName @ ''");'' @ nl @
     nl @
     tab @ tab @ tab @ ''auto myLabel = CCLabelBMFont::create("Hello from '' @ modName @ ''!", "bigFont.fnt");'' @ nl @
     nl @
     tab @ tab @ tab @ ''auto winSize = CCDirector::sharedDirector()->getWinSize();'' @ nl @
     tab @ tab @ tab @ ''myLabel->setPosition(winSize.width / 2, winSize.height / 2 + 100);'' @ nl @
     tab @ tab @ tab @ ''myLabel->setScale(0.7f);'' @ nl @
     tab @ tab @ tab @ ''this->addChild(myLabel);'' @ nl @
     tab @ tab @ ''} catch (const std::exception& e) {'' @ nl @
     tab @ tab @ tab @ ''geode::log::error("An error occurred during '' @ modName @ '' initialization: {}", e.what());'' @ nl @
     tab @ tab @ ''}'' @ nl @
     nl @
     tab @ tab @ ''return true;'' @ nl @
     tab @ ''}'' @ nl @
     ''};'' @ nl)\<close>

definition generatePlayLayerCpp :: "ModData \<Rightarrow> string" where
  \<open>generatePlayLayerCpp data =
     ''#include <Geode/Geode.hpp>'' @ nl @
     ''#include <Geode/modify/PlayLayer.hpp>'' @ nl @
     nl @
     ''using namespace geode::prelude;'' @ nl @
     nl @
     ''// Shows a notification when the player dies'' @ nl @
     ''class $modify(PlayLayer) {'' @ nl @
     ''    void onQuit() {'' @ nl @
     ''        // Call the original function so the game doesn'' @ sq @ ''t crash'' @ nl @
     ''        PlayLayer::onQuit();'' @ nl @
     nl @
     ''        try {'' @ nl @
     ''            // Log to the console and show a notification'' @ nl @
     ''            log::info("Player quit level, showing notification.");'' @ nl @
     ''            Notification::create("You died!", CCSprite::create("GJ_deleteBtn_001.png"))->show();'' @ nl @
     ''        } catch (const std::exception& e) {'' @ nl @
     ''            geode::log::error("An error occurred in PlayLayer::onQuit hook: {}", e.what());'' @ nl @
     ''        }'' @ nl @
     ''    }'' @ nl @
     ''};'' @ nl\<close>

text \<open>The settings variant. \<open>menuLayerModification\<close> is assembled from three pieces, the
  middle one chosen by the first boolean setting, if any.\<close>

definition menuLayerModification :: "ModData \<Rightarrow> string \<Rightarrow> string" where
  \<open>menuLayerModification data modName =
    (let m0 =
       nl @
       ''// This adds the "Hello World" label to the main menu, but only if a boolean setting is enabled.'' @ nl @
       ''class $modify(MyMenuLayerWithSettings, MenuLayer) {'' @ nl @
       tab @ ''bool init() {'' @ nl @
       tab @ tab @ ''if (!MenuLayer::init()) {'' @ nl @
       tab @ tab @ tab @ ''return false;'' @ nl @
       tab @ tab @ ''}'' @ nl @
       tab @ tab @ nl @
       tab @ tab @ ''try {'' @ nl;
         m1 = (case find (\<lambda>s. s_type s = Bool_t) (settings data) of
                 Some firstBoolSetting \<Rightarrow> m0 @
                   tab @ tab @ tab @ ''// Check if the setting is enabled'' @ nl @
                   tab @ tab @ tab @ ''if (Mod::get()->getSettingValue<bool>("'' @ s_key firstBoolSetting @ ''")) {'' @ nl @
                   tab @ tab @ tab @ tab @ ''log::info("Setting '' @ sq @ s_key firstBoolSetting @ sq @ '' is enabled, adding label.");'' @ nl @
                   tab @ tab @ tab @ tab @ ''auto myLabel = CCLabelBMFont::create("Hello from '' @ modName @ ''!", "bigFont.fnt");'' @ nl @
                   tab @ tab @ tab @ tab @ ''auto winSize = CCDirector::sharedDirector()->getWinSize();'' @ nl @
                   tab @ tab @ tab @ tab @ ''myLabel->setPosition(winSize.width / 2, winSize.height / 2 + 100);'' @ nl @
                   tab @ tab @ tab @ tab @ ''myLabel->setScale(0.7f);'' @ nl @
                   tab @ tab @ tab @ tab @ ''this->addChild(myLabel);'' @ nl @
                   tab @ tab @ tab @ ''}'' @ nl
               | None \<Rightarrow> m0 @
                   tab @ tab @ tab @ ''// You can add logic here that depends on your settings.'' @ nl @
                   tab @ tab @ tab @ ''// For example, create a boolean setting in the form to toggle this label.'' @ nl @
                   tab @ tab @ tab @ ''auto myLabel = CCLabelBMFont::create("Hello from '' @ modName @ ''!", "bigFont.fnt");'' @ nl @
                   tab @ tab @ tab @ ''auto winSize = CCDirector::sharedDirector()->getWinSize();'' @ nl @
                   tab @ tab @ tab @ ''myLabel->setPosition(winSize.width / 2, winSize.height / 2 + 100);'' @ nl @
                   tab @ tab @ tab @ ''myLabel->setScale(0.7f);'' @ nl @
                   tab @ tab @ tab @ ''this->addChild(myLabel);'' @ nl)
     in m1 @
       tab @ tab @ ''} catch (const std::exception& e) {'' @ nl @
       tab @ tab @ tab @ ''geode::log::error("An error occurred in MyMenuLayerWithSettings::init: {}", e.what());'' @ nl @
       tab @ tab @ ''}'' @ nl @
       nl @
       tab @ tab @ ''return true;'' @ nl @
       tab @ ''}'' @ nl @
       ''};'')\<close>

text \<open>One fragment of the settings panel per setting, by its type and its index.\<close>

definition settingFragment :: "string \<Rightarrow> nat \<Rightarrow> ModSetting \<Rightarrow> string" where
  \<open>settingFragment modId index setting =
    (let yPos = ''contentSize.height - 40.f - (40.f * '' @ string_of_nat index @ '')''
     in case s_type setting of
       Bool_t \<Rightarrow>
         nl @
         ''                    auto toggle_'' @ string_of_nat index @ '' = geode::Checkbox::create("'' @ s_name setting @ ''", nullptr);'' @ nl @
         ''                    popup->addToggle(toggle_'' @ string_of_nat index @ '', "'' @ modId @ ''", "'' @ s_key setting @ ''");'' @ nl @
         ''                    toggle_'' @ string_of_nat index @ ''->setPosition(contentSize.width / 2, '' @ yPos @ '');'' @ nl @
         ''                    popup->getBJSPopup()->m_mainLayer->addChild(toggle_'' @ string_of_nat index @ '');'' @ nl @
         ''                    ''
     | Int_t \<Rightarrow>
         nl @
         ''                    auto input_label_'' @ string_of_nat index @ '' = CCLabelBMFont::create("'' @ s_name setting @ ''", "bigFont.fnt");'' @ nl @
         ''                    input_label_'' @ string_of_nat index @ ''->setScale(0.5f);'' @ nl @
         ''                    input_label_'' @ string_of_nat index @ ''->setPosition(contentSize.width / 2 - 80.f, '' @ yPos @ '');'' @ nl @
         ''                    popup->getBJSPopup()->m_mainLayer->addChild(input_label_'' @ string_of_nat index @ '');'' @ nl @
         nl @
         ''                    auto input_'' @ string_of_nat index @ '' = geode::InputNode::create(100.f, "Number");'' @ nl @
         ''                    input_'' @ string_of_nat index @ ''->getInput()->setAllowedChars("0123456789-");'' @ nl @
         ''                    popup->addInput(input_'' @ string_of_nat index @ '', "'' @ modId @ ''", "'' @ s_key setting @ ''");'' @ nl @
         ''                    input_'' @ string_of_nat index @ ''->setPosition(contentSize.width / 2 + 30.f, '' @ yPos @ '');'' @ nl @
         ''                    popup->getBJSPopup()->m_mainLayer->addChild(input_'' @ string_of_nat index @ '');'' @ nl @
         ''                    ''
     | Float_t \<Rightarrow>
         nl @
         ''                    auto input_label_'' @ string_of_nat index @ '' = CCLabelBMFont::create("'' @ s_name setting @ ''", "bigFont.fnt");'' @ nl @
         ''                    input_label_'' @ string_of_nat index @ ''->setScale(0.5f);'' @ nl @
         ''                    input_label_'' @ string_of_nat index @ ''->setPosition(contentSize.width / 2 - 80.f, '' @ yPos @ '');'' @ nl @
         ''                    popup->getBJSPopup()->m_mainLayer->addChild(input_label_'' @ string_of_nat index @ '');'' @ nl @
         nl @
         ''                    auto input_'' @ string_of_nat index @ '' = geode::InputNode::create(100.f, "Number");'' @ nl @
         ''                    input_'' @ string_of_nat index @ ''->getInput()->setAllowedChars("0123456789.-");'' @ nl @
         ''                    popup->addInput(input_'' @ string_of_nat index @ '', "'' @ modId @ ''", "'' @ s_key setting @ ''");'' @ nl @
         ''                    input_'' @ string_of_nat index @ ''->setPosition(contentSize.width / 2 + 30.f, '' @ yPos @ '');'' @ nl @
         ''                    popup->getBJSPopup()->m_mainLayer->addChild(input_'' @ string_of_nat index @ '');'' @ nl @
         ''                    ''
     | String_t \<Rightarrow>
         nl @
         ''                    auto input_label_'' @ string_of_nat index @ '' = CCLabelBMFont::create("'' @ s_name setting @ ''", "bigFont.fnt");'' @ nl @
         ''                    input_label_'' @ string_of_nat index @ ''->setScale(0.5f);'' @ nl @
         ''                    input_label_'' @ string_of_nat index @ ''->setPosition(contentSize.width / 2 - 80.f, '' @ yPos @ '');'' @ nl @
         ''                    popup->getBJSPopup()->m_mainLayer->addChild(input_label_'' @ string_of_nat index @ '');'' @ nl @
         nl @
         ''                    auto input_'' @ string_of_nat index @ '' = geode::InputNode::create(150.f, "Text");'' @ nl @
         ''                    popup->addInput(input_'' @ string_of_nat index @ '', "'' @ modId @ ''", "'' @ s_key setting @ ''");'' @ nl @
         ''                    input_'' @ string_of_nat index @ ''->setPosition(contentSize.width / 2 + 55.f, '' @ yPos @ '');'' @ nl @
         ''                    popup->getBJSPopup()->m_mainLayer->addChild(input_'' @ string_of_nat index @ '');'' @ nl @
         ''                    '')\<close>

definition settingsUiGeneration :: "ModData \<Rightarrow> string \<Rightarrow> string" where
  \<open>settingsUiGeneration data modId =
    (if length (settings data) > 0
     then fold (\<lambda>(index, setting) acc. acc @ settingFragment modId index setting)
            (enumerate 0 (settings data)) ''''
     else
       nl @
       ''                    auto label = CCLabelBMFont::create("This mod has no settings.", "bigFont.fnt");'' @ nl @
       ''                    label->setPosition(contentSize.width / 2, contentSize.height / 2);'' @ nl @
       ''                    label->setScale(0.6f);'' @ nl @
       ''                    popup->getBJSPopup()->m_mainLayer->addChild(label);'' @ nl @
       ''        '')\<close>

definition generateSettingsLayerCpp :: "ModData \<Rightarrow> string" where
  \<open>generateSettingsLayerCpp data =
    (let modId = or_str (mod_id data) ''com.developer.modname'';
         modName = or_str (name data) ''My Mod''
     in
     ''#include <Geode/Geode.hpp>'' @ nl @
     ''#include <Geode/modify/MenuLayer.hpp>'' @ nl @
     ''#include <Geode/ui/GeodeUI.hpp>'' @ nl @
     ''#include <Geode/ui/InputNode.hpp>'' @ nl @
     ''#include <Geode/ui/Checkbox.hpp>'' @ nl @
     nl @
     ''using namespace geode::prelude;'' @ nl @
     menuLayerModification data modName @ nl @
     nl @
     ''// This function is called when the mod is loaded.'' @ nl @
     ''// It is used to create the settings UI.'' @ nl @
     ''$execute {'' @ nl @
     ''    // We use onModsLoaded instead of just running the code to make sure'' @ nl @
     ''    // the mod list is ready and the settings button can be created.'' @ nl @
     ''    geode::ui::onModsLoaded([] {'' @ nl @
     ''        geode::ui::createSettingsPopup('' @ nl @
     ''            "'' @ modId @ ''",'' @ nl @
     ''            [](auto popup) {'' @ nl @
     ''                // This is the function that creates the UI.'' @ nl @
     ''                // It is called every time the user opens your settings.'' @ nl @
     ''                try {'' @ nl @
     ''                    log::info("Creating settings UI for '' @ modId @ ''");'' @ nl @
     ''                    // First, we get the content size of the popup.'' @ nl @
     ''                    // This is used to position our elements.'' @ nl @
     ''                    auto contentSize = popup->getBJSPopup()->m_mainLayer->getContentSize();'' @ nl @
     ''                    '' @ nl @
     ''                    // The following UI is generated automatically based on your settings.'' @ nl @
     ''                    '' @ settingsUiGeneration data modId @ nl @
     nl @
     ''                    return true;'' @ nl @
     ''                } catch (const std::exception& e) {'' @ nl @
     ''                    geode::log::error("Failed to create settings UI for '' @ modId @ '': {}", e.what());'' @ nl @
     ''                    return false; // Indicate failure'' @ nl @
     ''                }'' @ nl @
     ''            }'' @ nl @
     ''        );'' @ nl @
     ''    });'' @ nl @
     ''}'' @ nl)\<close>

definition generateMainCpp :: "ModData \<Rightarrow> string" where
  "generateMainCpp data =
     (case cppTemplate data of
        Playlayer \<Rightarrow> generatePlayLayerCpp data
      | Settings \<Rightarrow> generateSettingsLayerCpp data
      | Menulayer \<Rightarrow> generateMenuLayerCpp data)"

definition generateCIWorkflow :: string where
  \<open>generateCIWorkflow =
     ''name: Build Mod'' @ nl @
     nl @
     ''on: [push, pull_request]'' @ nl @
     nl @
     ''jobs:'' @ nl @
     ''  build:'' @ nl @
     ''    strategy:'' @ nl @
     ''      matrix:'' @ nl @
     ''        os: [windows-latest, macos-latest]'' @ nl @
     nl @
     ''    runs-on: ${{ matrix.os }}'' @ nl @
     nl @
     ''    steps:'' @ nl @
     ''      - uses: actions/checkout@v3'' @ nl @
     ''        with:'' @ nl @
     ''          submodules: true'' @ nl @
     nl @
     ''      - name: Setup Geode'' @ nl @
     ''        uses: geode-sdk/setup-geode-sdk@v1'' @ nl @
     ''        with:'' @ nl @
     ''          # This is the token for your PERSONAL ACCESS TOKEN'' @ nl @
     ''          # You can get one here: https://github.com/settings/tokens'' @ nl @
     ''          # You only need the '' @ sq @ ''repo'' @ sq @ '' scope'' @ nl @
     ''          token: ${{ secrets.GEODE_SDK_TOKEN }}'' @ nl @
     nl @
     ''      - name: Build'' @ nl @
     ''        run: geode build'' @ nl @
     nl @
     ''      - name: Upload Artifact'' @ nl @
     ''        uses: actions/upload-artifact@v3'' @ nl @
     ''        with:'' @ nl @
     ''          name: ${{ matrix.os }} Build'' @ nl @
     ''          path: build/*.geode'' @ nl\<close>

definition generateReadme :: "ModData \<Rightarrow> string" where
  \<open>generateReadme data =
     ''# '' @ or_str (name data) ''My Awesome Mod'' @ nl @
     nl @
     ''A new mod for Geometry Dash, created by '' @ or_str (developer data) ''Your Name'' @ ''.'' @ nl @
     nl @
     or_str (description data) ''A brief summary of what your mod does.'' @ nl @
     nl @
     ''## Project Structure'' @ nl @
     nl @
     ''*   `mod.json`: The manifest file for your mod. Contains metadata like the name, developer, version, and dependencies.'' @ nl @
     ''*   `CMakeLists.txt`: The build script for your mod.'' @ nl @
     ''*   `resources/`: Contains your C++ source code.'' @ nl @
     ''    *   `main.cpp`: The main entry point for your mod.'' @ nl @
     ''*   `assets/`: Contains assets for your mod (spritesheets, images, sounds, etc.).'' @ nl @
     ''*   `LICENSE`: The license for your mod.'' @ nl @
     ''*   `CONTRIBUTING.md`: Guidelines for contributing to your mod.'' @ nl @
     nl @
     ''This mod was generated with the [Geode Mod Creator](https://geode-sdk.org/creator).'' @ nl\<close>

definition generateGitIgnore :: string where
  \<open>generateGitIgnore =
     ''build/'' @ nl @
     ''bin/'' @ nl @
     ''*.geode'' @ nl @
     ''*.dll'' @ nl @
     ''*.dylib'' @ nl @
     ''*.so'' @ nl @
     ''*.zip'' @ nl @
     ''*.rar'' @ nl @
     ''*.7z'' @ nl @
     nl @
     ''# Visual Studio'' @ nl @
     ''.vs/'' @ nl @
     ''*.VC.db'' @ nl @
     ''*.VC.opendb'' @ nl @
     ''*.*.user'' @ nl @
     nl @
     ''# CLion'' @ nl @
     ''.idea/'' @ nl @
     nl @
     ''# VSCode'' @ nl @
     ''.vscode/'' @ nl\<close>

text \<open>The licence reads the wall clock: \<open>new Date().getFullYear()\<close> is the parameter
  \<open>year\<close>.\<close>

definition generateLicense :: "nat \<Rightarrow> ModData \<Rightarrow> string" where
  \<open>generateLicense year data =
    (let developer = or_str (developer data) ''Your Name'' in
     ''MIT License'' @ nl @
     nl @
     ''Copyright (c) '' @ string_of_nat year @ '' '' @ developer @ nl @
     nl @
     ''Permission is hereby granted, free of charge, to any person obtaining a copy'' @ nl @
     ''of this software and associated documentation files (the "Software"), to deal'' @ nl @
     ''in the Software without restriction, including without limitation the rights'' @ nl @
     ''to use, copy, modify, merge, publish, distribute, sublicense, and/or sell'' @ nl @
     ''copies of the Software, and to permit persons to whom the Software is'' @ nl @
     ''furnished to do so, to the following conditions:'' @ nl @
     nl @
     ''The above copyright notice and this permission notice shall be included in all'' @ nl @
     ''copies or substantial portions of the Software.'' @ nl @
     nl @
     ''THE SOFTWARE IS PROVIDED "AS IS", WITHOUT WARRANTY OF ANY KIND, EXPRESS OR'' @ nl @
     ''IMPLIED, INCLUDING BUT NOT LIMITED TO THE WARRANTIES OF MERCHANTABILITY,'' @ nl @
     ''FITNESS FOR A PARTICULAR PURPOSE AND NONINFRINGEMENT. IN NO EVENT SHALL THE'' @ nl @
     ''AUTHORS OR COPYRIGHT HOLDERS BE LIABLE FOR ANY CLAIM, DAMAGES OR OTHER'' @ nl @
     ''LIABILITY, WHETHER IN AN ACTION OF CONTRACT, TORT OR OTHERWISE, ARISING FROM,'' @ nl @
     ''OUT OF OR IN CONNECTION WITH THE SOFTWARE OR THE USE OR OTHER DEALINGS IN THE'' @ nl @
     ''SOFTWARE.'' @ nl)\<close>

text \<open>\<open>repository.replace(/\.git$/, '')\<close>: a final \<open>.git\<close> is cut off.\<close>

definition stripGitSuffix :: "string \<Rightarrow> string" where
  "stripGitSuffix r = (if endsWith r ''.git'' then take (length r - 4) r else r)"

definition generateContributingMd :: "ModData \<Rightarrow> string" where
  \<open>generateContributingMd data =
    (let modName = or_str (name data) ''this project'';
         repoUrl = (if repository data \<noteq> [] then stripGitSuffix (repository data) else ''https://github.com/your/repo'');
         issuesUrl = (if repository data \<noteq> [] then repoUrl @ ''/issues'' else ''#'');
         newIssueUrl = (if repository data \<noteq> [] then repoUrl @ ''/issues/new'' else ''#'')
     in
     ''# Contributing to '' @ modName @ nl @
     nl @
     ''First off, thank you for considering contributing to '' @ modName @ ''! It'' @ sq @ ''s people like you that make the Geode modding community such a great place.'' @ nl @
     nl @
     ''## How Can I Contribute?'' @ nl @
     nl @
     ''### Reporting Bugs'' @ nl @
     nl @
     ''- Ensure the bug was not already reported by searching on GitHub under [Issues]('' @ issuesUrl @ '').'' @ nl @
     ''- If you'' @ sq @ ''re unable to find an open issue addressing the problem, [open a new one]('' @ newIssueUrl @ ''). Be sure to include a **title and clear description**, as much relevant information as possible, and a **code sample or an executable test case** demonstrating the expected behavior that is not occurring.'' @ nl @
     nl @
     ''### Suggesting Enhancements'' @ nl @
     nl @
     ''- Open a new issue to discuss your new feature idea.'' @ nl @
     ''- Be sure to provide a clear and detailed explanation of the feature, its potential benefits, and any implementation details you have in mind.'' @ nl @
     nl @
     ''### Pull Requests'' @ nl @
     nl @
     ''1. Fork the repo and create your branch from `main`.'' @ nl @
     ''2. If you'' @ sq @ ''ve added code that should be tested, add tests.'' @ nl @
     ''3. Ensure the test suite passes.'' @ nl @
     ''4. Make sure your code lints.'' @ nl @
     ''5. Issue that pull request!'' @ nl @
     nl @
     ''## Styleguides'' @ nl @
     nl @
     ''Please try to follow the coding style of the existing codebase. This makes it easier for everyone to read and understand the code.'' @ nl @
     nl @
     ''We look forward to your contributions!'' @ nl)\<close>

section \<open>The file tree and its mutations (App.tsx)\<close>

text \<open>An object from paths to contents. A content is declared a string or \<open>undefined\<close>;
  since a parsed response can put any value there, it is a \<open>json\<close> or \<open>undefined\<close>, a
  string being \<open>JStr\<close>. \<open>GeneratedFiles\<close> is such an object as a literal or a copy
  \<open>{...prev}\<close> makes it, with the prototype of every plain object: what it owns is all
  it has under a path. Reading a path it does not own gives \<open>undefined\<close>.\<close>

definition obj_read :: "GeneratedFiles \<Rightarrow> string \<Rightarrow> json option" where
  "obj_read ob k = (case obj_get ob k of None \<Rightarrow> None | Some v \<Rightarrow> v)"

text \<open>The state \<open>generatedFiles\<close> is \<open>null\<close> (\<^const>\<open>None\<close>) or such an object together
  with its prototype, since an assignment to \<open>__proto__\<close> can replace the prototype: by a
  parsed object or array, or by \<open>null\<close>.\<close>

datatype prototype = ObjectPrototype | NullPrototype | Parsed json

record tree =
  own :: GeneratedFiles
  proto :: prototype

definition plain :: "GeneratedFiles \<Rightarrow> tree" where
  "plain files = \<lparr>own = files, proto = ObjectPrototype\<rparr>"

text \<open>The enumerable properties an object inherits: the properties of a parsed object, the
  elements of a parsed array under their indices, and nothing from the built-in
  prototypes.\<close>

fun inherited :: "prototype \<Rightarrow> GeneratedFiles" where
  "inherited (Parsed (JObj ob)) = map (\<lambda>(k, v). (k, Some v)) ob"
| "inherited (Parsed (JArr xs)) = zip (map string_of_nat [0..<length xs]) (map Some xs)"
| "inherited pr = []"

text \<open>\<open>for (const path in t)\<close> visits the keys the object owns, then those it inherits and
  does not own. \<open>t[path]\<close>, at a path the loop visits, is the own property or else the
  inherited one.\<close>

definition forIn :: "tree \<Rightarrow> string list" where
  "forIn t =
     obj_keys (own t) @ filter (\<lambda>k. k \<notin> set (obj_keys (own t))) (obj_keys (inherited (proto t)))"

definition tree_get :: "tree \<Rightarrow> string \<Rightarrow> json option" where
  "tree_get t k =
     (case obj_get (own t) k of
        Some v \<Rightarrow> v
      | None \<Rightarrow> obj_read (inherited (proto t)) k)"

text \<open>The assignment \<open>t[k] = v\<close> on such an object. An own property is overwritten. A key
  the object does not own is defined on it, but for \<open>__proto__\<close> when the lookup along
  the prototypes ends at the accessor of the built-in prototype, that is, when the
  prototype is not \<open>null\<close> and is not a parsed object owning a property \<open>__proto__\<close>:
  then an object, an array or \<open>null\<close> becomes the prototype, any other value is
  dropped, and the own properties stay as they are.\<close>

definition tree_set :: "tree \<Rightarrow> string \<Rightarrow> json option \<Rightarrow> tree" where
  "tree_set t k v =
     (if k = ''__proto__'' \<and> k \<notin> set (obj_keys (own t)) \<and> proto t \<noteq> NullPrototype
         \<and> k \<notin> set (obj_keys (inherited (proto t)))
      then (case v of
              Some (JObj ob) \<Rightarrow> t\<lparr>proto := Parsed (JObj ob)\<rparr>
            | Some (JArr xs) \<Rightarrow> t\<lparr>proto := Parsed (JArr xs)\<rparr>
            | Some JNull \<Rightarrow> t\<lparr>proto := NullPrototype\<rparr>
            | _ \<Rightarrow> t)
      else t\<lparr>own := obj_define (own t) k v\<rparr>)"

text \<open>The configuration the application starts with (\<open>useState\<close> in \<open>App\<close>).\<close>

definition initialModData :: ModData where
  "initialModData =
     \<lparr>mod_id = '''', name = '''', version = ''v1.0.0'', developer = '''', description = '''',
      logo = None, dependencies = '''', repository = '''', cppTemplate = Menulayer,
      includeCi = False,
      platforms = \<lparr>win = True, mac = True, android = True, ios = False\<rparr>,
      gdVersion = ''*'', geodeVersion = ''2.0.0-beta.26'', tags = '''',
      providesApi = False, earlyLoad = False,
      settings = [\<lparr>s_id = ''setting-initial-1'', s_key = ''welcome_message'',
                    s_name = ''Welcome Message'',
                    s_description = ''The message to display on startup'',
                    s_type = String_t, s_default = VString ''Hello, Geode!''\<rparr>]\<rparr>"

subsection \<open>Regeneration\<close>

text \<open>The body of the loop over the previous tree in \<open>generateFiles\<close>: an asset other than
  the logo and the placeholder is carried over. In \<open>generateFiles\<close> itself the clock's
  year is the parameter \<open>year\<close>, the state \<open>generatedFiles\<close> the last parameter, and
  \<open>if (modData.logo)\<close> takes a logo that is \<open>undefined\<close> or empty as absent.\<close>

definition keepAsset :: "tree \<Rightarrow> string \<Rightarrow> GeneratedFiles \<Rightarrow> GeneratedFiles" where
  "keepAsset generatedFiles path files =
     (if startsWith path ''assets/'' \<and> path \<noteq> ''assets/logo.png'' \<and> path \<noteq> ''assets/.gitkeep''
      then obj_set files path (tree_get generatedFiles path)
      else files)"

definition generateFiles :: "builtins \<Rightarrow> nat \<Rightarrow> ModData \<Rightarrow> tree option \<Rightarrow> GeneratedFiles" where
  "generateFiles js year modData generatedFiles =
     (let files0 = [(''mod.json'', Some (JStr (generateModJson js modData))),
                    (''CMakeLists.txt'', Some (JStr (generateCMakeLists modData))),
                    (''src/main.cpp'', Some (JStr (generateMainCpp modData))),
                    (''README.md'', Some (JStr (generateReadme modData))),
                    (''.gitignore'', Some (JStr generateGitIgnore)),
                    (''LICENSE'', Some (JStr (generateLicense year modData))),
                    (''CONTRIBUTING.md'', Some (JStr (generateContributingMd modData))),
                    (''assets/.gitkeep'', Some (JStr ''''))];
          files1 = (if includeCi modData
                    then obj_set files0 ''.github/workflows/main.yml'' (Some (JStr generateCIWorkflow))
                    else files0);
          theLogo = (case logo modData of None \<Rightarrow> '''' | Some l \<Rightarrow> l);
          files2 = (if theLogo \<noteq> []
                    then obj_set files1 ''assets/logo.png'' (map_option JStr (index_opt (split theLogo (CHR '','')) 1))
                    else (if truthy_json (obj_read files1 ''assets/logo.png'')
                          then obj_delete files1 ''assets/logo.png''
                          else files1));
          files3 = (case generatedFiles of
                      None \<Rightarrow> files2
                    | Some prev \<Rightarrow> fold (keepAsset prev) (forIn prev) files2)
      in files3)"

text \<open>The effect that follows every change of the configuration: the tree is generated when
  the three required fields are non-empty and set to \<open>null\<close> otherwise.\<close>

definition regenerate :: "builtins \<Rightarrow> nat \<Rightarrow> ModData \<Rightarrow> tree option \<Rightarrow> GeneratedFiles option" where
  "regenerate js year modData generatedFiles =
     (if mod_id modData \<noteq> [] \<and> name modData \<noteq> [] \<and> developer modData \<noteq> []
      then Some (generateFiles js year modData generatedFiles)
      else None)"

text \<open>The identifier check of the form (\<open>/^[a-z0-9-]+(\.[a-z0-9-]+)+$/\<close>); it only sets a
  message.\<close>

definition idChar :: "char \<Rightarrow> bool" where
  "idChar c = (char_in (CHR ''a'') (CHR ''z'') c \<or> char_in (CHR ''0'') (CHR ''9'') c \<or> c = CHR ''-'')"

definition validModId :: "string \<Rightarrow> bool" where
  "validModId s =
     (let segs = split s (CHR ''.'')
      in length segs \<ge> 2 \<and> list_all (\<lambda>seg. seg \<noteq> [] \<and> list_all idChar seg) segs)"

subsection \<open>Manual edits\<close>

definition handleFileContentChange :: "tree option \<Rightarrow> string \<Rightarrow> string \<Rightarrow> GeneratedFiles option" where
  "handleFileContentChange prev path newContent =
     (case prev of None \<Rightarrow> None | Some p \<Rightarrow> Some (obj_define (own p) path (Some (JStr newContent))))"

subsection \<open>Mutations issued by the assistant (\<open>handleSendMessage\<close>)\<close>

text \<open>The body of \<open>forEach\<close> over the parsed array \<open>files\<close>. An element is whatever the
  response held. \<open>file.filePath && file.fileContent\<close> reads the first property, and the
  second when the first is truthy; on a \<open>null\<close> element the read throws. The entry is
  written when both are truthy: the key is the path turned into a string, which can
  throw, the content is stored as it is.\<close>

definition mergeFile :: "builtins \<Rightarrow> json \<Rightarrow> tree \<Rightarrow> jsError + tree" where
  "mergeFile js file newFiles =
     (case property file ''filePath'' of
        Inl e \<Rightarrow> Inl e
      | Inr filePath \<Rightarrow>
          (if truthy_json filePath
           then (case property file ''fileContent'' of
                   Inl e \<Rightarrow> Inl e
                 | Inr fileContent \<Rightarrow>
                     (if truthy_json fileContent
                      then (case filePath of
                              None \<Rightarrow> Inr newFiles
                            | Some p \<Rightarrow>
                                (case ToString js p of
                                   Inl e \<Rightarrow> Inl e
                                 | Inr key \<Rightarrow> Inr (tree_set newFiles key fileContent)))
                      else Inr newFiles))
           else Inr newFiles))"

text \<open>The loop: an exception ends it, and the update with it.\<close>

fun mergeFiles :: "builtins \<Rightarrow> json list \<Rightarrow> tree \<Rightarrow> jsError + tree" where
  "mergeFiles js [] newFiles = Inr newFiles"
| "mergeFiles js (file # files) newFiles =
     (case mergeFile js file newFiles of
        Inl e \<Rightarrow> Inl e
      | Inr newFiles' \<Rightarrow> mergeFiles js files newFiles')"

text \<open>The state update for the multi-file format \<open>{files: [...]}\<close>, taken when
  \<open>files\<close> is an array.\<close>

definition mergeMany :: "builtins \<Rightarrow> tree option \<Rightarrow> json list \<Rightarrow> jsError + tree" where
  "mergeMany js prev files =
     (let newFiles = plain (case prev of None \<Rightarrow> [] | Some p \<Rightarrow> own p)
      in mergeFiles js files newFiles)"

text \<open>The state update for the old single-file format, taken when both fields are
  non-empty strings.\<close>

definition mergeSingle :: "tree option \<Rightarrow> string \<Rightarrow> string \<Rightarrow> GeneratedFiles" where
  "mergeSingle prev path content =
     (let newFiles = (case prev of None \<Rightarrow> [] | Some p \<Rightarrow> own p)
      in obj_set newFiles path (Some (JStr content)))"

text \<open>The state update after the tool call \<open>generateImageAndPlist\<close>. The file name is
  sanitised by \<open>replace(/[^a-z0-9-_\.]/gi, '-').toLowerCase()\<close>, which leaves ASCII letters,
  digits, \<open>-\<close>, \<open>_\<close> and \<open>.\<close> only before it lowers the case, and the descriptor's
  name replaces the first \<open>.png\<close> by \<open>.plist\<close>.\<close>

definition isUpper :: "char \<Rightarrow> bool" where
  "isUpper c = char_in (CHR ''A'') (CHR ''Z'') c"

definition fileNameChar :: "char \<Rightarrow> bool" where
  "fileNameChar c =
     (char_in (CHR ''a'') (CHR ''z'') c \<or> isUpper c \<or> char_in (CHR ''0'') (CHR ''9'') c
      \<or> c = CHR ''-'' \<or> c = CHR ''_'' \<or> c = CHR ''.'')"

definition toLowerCase :: "string \<Rightarrow> string" where
  "toLowerCase s = map (\<lambda>c. if isUpper c then char_of (of_char c + (32::nat)) else c) s"

fun replaceFirst :: "string \<Rightarrow> string \<Rightarrow> string \<Rightarrow> string" where
  "replaceFirst [] pat rep = (if pat = [] then rep else [])"
| "replaceFirst (x # xs) pat rep =
     (if startsWith (x # xs) pat then rep @ drop (length pat) (x # xs)
      else x # replaceFirst xs pat rep)"

definition sanitizedFileName :: "string \<Rightarrow> string" where
  "sanitizedFileName fileName =
     toLowerCase
       (map (\<lambda>c. if fileNameChar c then c else CHR ''-'')
          (if endsWith fileName ''.png'' then fileName else fileName @ ''.png''))"

definition mergeAsset :: "tree option \<Rightarrow> string \<Rightarrow> string \<Rightarrow> string \<Rightarrow> GeneratedFiles" where
  "mergeAsset prev fileName base64ImageBytes plistContent =
     (let newFiles = (case prev of None \<Rightarrow> [] | Some p \<Rightarrow> own p);
          plistFileName = replaceFirst (sanitizedFileName fileName) ''.png'' ''.plist'';
          newFiles1 = obj_delete newFiles ''assets/.gitkeep'';
          newFiles2 = obj_set newFiles1 (''assets/'' @ sanitizedFileName fileName) (Some (JStr base64ImageBytes));
          newFiles3 = obj_set newFiles2 (''assets/'' @ plistFileName) (Some (JStr plistContent))
      in newFiles3)"

subsection \<open>The archive (\<open>handleDownload\<close>)\<close>

text \<open>The archive is the list of the calls \<open>zip.file(path, content)\<close> and
  \<open>zip.file(path, content, {base64: true})\<close>, in order, each with the content it was
  given.\<close>

datatype zipEntry = TextFile string json | Base64File string json

definition isTextFile :: "string \<Rightarrow> bool" where
  "isTextFile path =
     list_ex (\<lambda>ext. endsWith path ext)
       [''.json'', ''.txt'', ''.cpp'', ''.md'', ''.yml'', ''.gitignore'', ''LICENSE'', ''.gitkeep'', ''.plist'']"

definition addFileToZip :: "string \<Rightarrow> json option \<Rightarrow> zipEntry list \<Rightarrow> zipEntry list" where
  "addFileToZip path content archive =
     (case content of
        None \<Rightarrow> archive
      | Some c \<Rightarrow> (if \<not> isTextFile path then archive @ [Base64File path c] else archive @ [TextFile path c]))"

definition handleDownload :: "tree option \<Rightarrow> zipEntry list option" where
  "handleDownload generatedFiles =
     (case generatedFiles of
        None \<Rightarrow> None
      | Some files \<Rightarrow>
          Some (fold (\<lambda>path archive. addFileToZip path (tree_get files path) archive) (forIn files) []))"

section \<open>Editing a custom setting (components/ModForm.tsx)\<close>

text \<open>\<open>handleSettingChange(id, field, value)\<close>: the field and the value it receives are one
  constructor each. The form passes one of the four type tags with the field \<open>type\<close>.\<close>

datatype settingChange =
    Set_id string
  | Set_key string
  | Set_name string
  | Set_description string
  | Set_type ModSettingType
  | Set_default jsvalue

definition updatedSetting :: "settingChange \<Rightarrow> ModSetting \<Rightarrow> ModSetting" where
  "updatedSetting change s =
     (case change of
        Set_id v \<Rightarrow> s\<lparr>s_id := v\<rparr>
      | Set_key v \<Rightarrow> s\<lparr>s_key := v\<rparr>
      | Set_name v \<Rightarrow> s\<lparr>s_name := v\<rparr>
      | Set_description v \<Rightarrow> s\<lparr>s_description := v\<rparr>
      | Set_type v \<Rightarrow>
          (case v of
             Bool_t \<Rightarrow> s\<lparr>s_type := v, s_default := VBool False\<rparr>
           | Int_t \<Rightarrow> s\<lparr>s_type := v, s_default := VNumber (Finite 0)\<rparr>
           | Float_t \<Rightarrow> s\<lparr>s_type := v, s_default := VNumber (Finite 0.0)\<rparr>
           | String_t \<Rightarrow> s\<lparr>s_type := v, s_default := VString ''''\<rparr>)
      | Set_default v \<Rightarrow> s\<lparr>s_default := v\<rparr>)"

definition handleSettingChange :: "ModData \<Rightarrow> string \<Rightarrow> settingChange \<Rightarrow> ModData" where
  "handleSettingChange modData ident change =
     modData\<lparr>settings := map (\<lambda>s. if s_id s = ident then updatedSetting change s else s) (settings modData)\<rparr>"

section \<open>An instance of the built-ins\<close>

text \<open>Every statement below holds for all built-ins; this instance serves where a concrete
  one is needed.\<close>

definition const_builtins :: builtins where
  "const_builtins = \<lparr>JSON_stringify = (\<lambda>v. ''{}''), parseInt10 = (\<lambda>s. NaN),
     parseFloat = (\<lambda>s. NaN), String_of_number = (\<lambda>n. ''NaN'')\<rparr>"

section \<open>The archive's classification as the specification words it\<close>

text \<open>The specification speaks of a path's extension and of an entry named exactly
  \<open>LICENSE\<close> or \<open>.gitkeep\<close>. The name of an entry is what follows the last \<open>/\<close> of its
  path; the extension of a name is what starts at its last dot. \<open>spec_isTextEntry\<close> is the
  specification's rule in these terms, to be compared with \<open>isTextFile\<close>.\<close>

definition afterLast :: "char \<Rightarrow> string \<Rightarrow> string" where
  "afterLast c s = rev (takeWhile (\<lambda>x. x \<noteq> c) (rev s))"

definition fileName :: "string \<Rightarrow> string" where
  "fileName path = afterLast (CHR ''/'') path"

definition extension :: "string \<Rightarrow> string" where
  "extension nm = (if CHR ''.'' \<in> set nm then CHR ''.'' # afterLast (CHR ''.'') nm else [])"

definition spec_isTextEntry :: "string \<Rightarrow> bool" where
  "spec_isTextEntry path =
     (extension (fileName path) \<in> set [''.json'', ''.txt'', ''.cpp'', ''.md'', ''.yml'', ''.gitignore'', ''.plist'']
      \<or> fileName path = ''LICENSE'' \<or> fileName path = ''.gitkeep'')"

section \<open>Objects\<close>

lemma map_of_insertIndex:
  "map_of (insertIndex k v ob) k' = (if k' = k then Some v else map_of ob k')"
  by (induction ob) auto

lemma set_insertIndex: "set (insertIndex k v ob) = insert (k, v) (set ob)"
proof (induction ob)
  case Nil
  then show ?case by simp
next
  case (Cons a ob)
  obtain k' v' where a: "a = (k', v')" by (cases a)
  show ?case
    unfolding a using Cons.IH
    by (cases "isArrayIndex k' \<and> indexValue k' < indexValue k") auto
qed

lemma keys_insertIndex: "set (map fst (insertIndex k v ob)) = insert k (set (map fst ob))"
  by (simp add: set_insertIndex)

lemma map_of_snoc:
  "k \<notin> set (map fst ob) \<Longrightarrow> map_of (ob @ [(k, v)]) k' = (if k' = k then Some v else map_of ob k')"
  by (induction ob) auto

lemma obj_get_define: "obj_get (obj_define ob k v) k' = (if k' = k then Some v else obj_get ob k')"
proof (cases "k \<in> set (obj_keys ob)")
  case True
  then show ?thesis
    by (simp add: obj_get_def obj_define_def update_conv')
next
  case False
  then show ?thesis
    by (simp add: obj_get_def obj_define_def obj_keys_def map_of_insertIndex map_of_snoc
        del: map_of_append)
qed

lemma obj_keys_define: "set (obj_keys (obj_define ob k v)) = insert k (set (obj_keys ob))"
proof (cases "k \<in> set (obj_keys ob)")
  case True
  then show ?thesis
    by (auto simp add: obj_keys_def obj_define_def update_keys)
next
  case False
  then show ?thesis
    using keys_insertIndex [of k v ob]
    by (simp add: obj_keys_def obj_define_def)
qed

lemma obj_get_set:
  "obj_get (obj_set ob k v) k' =
     (if k' = k \<and> (k \<noteq> ''__proto__'' \<or> k \<in> set (obj_keys ob)) then Some v else obj_get ob k')"
  by (auto simp add: obj_set_def obj_get_define)

lemma obj_keys_set:
  "set (obj_keys (obj_set ob k v)) =
     (if k = ''__proto__'' \<and> k \<notin> set (obj_keys ob) then set (obj_keys ob)
      else insert k (set (obj_keys ob)))"
  by (auto simp add: obj_set_def obj_keys_define)

lemma obj_get_delete: "obj_get (obj_delete ob k) k' = (if k' = k then None else obj_get ob k')"
  by (simp add: obj_get_def obj_delete_def delete_conv')

lemma obj_get_keys: "obj_get ob k \<noteq> None \<longleftrightarrow> k \<in> set (obj_keys ob)"
  by (simp add: obj_get_def obj_keys_def map_of_eq_None_iff)

lemma tree_get_own: "p \<in> set (obj_keys (own prev)) \<Longrightarrow> Some (tree_get prev p) = obj_get (own prev) p"
  using obj_get_keys [of "own prev" p] by (auto simp add: tree_get_def)

lemma forIn_own: "p \<in> set (obj_keys (own prev)) \<Longrightarrow> p \<in> set (forIn prev)"
  by (simp add: forIn_def)

lemma own_plain: "own (plain files) = files"
  by (simp add: plain_def)

lemma startsWith_assets_not_proto: "startsWith p ''assets/'' \<Longrightarrow> p \<noteq> ''__proto__''"
  by (auto simp add: startsWith_def)

section \<open>Regeneration\<close>

lemma obj_get_keepAsset:
  "obj_get (keepAsset prev k files) p =
     (if p = k \<and> startsWith k ''assets/'' \<and> k \<noteq> ''assets/logo.png'' \<and> k \<noteq> ''assets/.gitkeep''
      then Some (tree_get prev k) else obj_get files p)"
  using startsWith_assets_not_proto [of k] by (auto simp add: keepAsset_def obj_get_set)

lemma obj_get_fold_keepAsset:
  "obj_get (fold (keepAsset prev) ks files) p =
     (if p \<in> set ks \<and> startsWith p ''assets/'' \<and> p \<noteq> ''assets/logo.png'' \<and> p \<noteq> ''assets/.gitkeep''
      then Some (tree_get prev p) else obj_get files p)"
proof (induction ks arbitrary: files)
  case Nil
  then show ?case by simp
next
  case (Cons k ks)
  show ?case
    by (auto simp add: Cons.IH obj_get_keepAsset)
qed

lemma files0_gitkeep:
  "obj_get [(''mod.json'', a), (''CMakeLists.txt'', b), (''src/main.cpp'', c), (''README.md'', d),
            (''.gitignore'', e), (''LICENSE'', f), (''CONTRIBUTING.md'', g), (''assets/.gitkeep'', h)]
     ''assets/.gitkeep'' = Some h"
  by (simp add: obj_get_def)

lemma generateFiles_gitkeep:
  "obj_get (generateFiles js year modData prev) ''assets/.gitkeep'' = Some (Some (JStr ''''))"
  unfolding generateFiles_def Let_def
  by (simp add: obj_get_fold_keepAsset obj_get_set obj_get_delete files0_gitkeep split: option.split)

lemma generateFiles_assets:
  assumes "path \<in> set (obj_keys (own prev))" and "startsWith path ''assets/''"
    and "path \<noteq> ''assets/logo.png''" and "path \<noteq> ''assets/.gitkeep''"
  shows "obj_get (generateFiles js year modData (Some prev)) path = obj_get (own prev) path"
  using assms unfolding generateFiles_def Let_def
  by (simp add: obj_get_fold_keepAsset tree_get_own forIn_own)

lemma generateFiles_non_assets:
  assumes "\<not> startsWith path ''assets/''"
  shows "obj_get (generateFiles js year modData prev) path = obj_get (generateFiles js year modData None) path"
  using assms unfolding generateFiles_def Let_def
  by (cases prev) (simp_all add: obj_get_fold_keepAsset)

text \<open>
  \<^bold>\<open>C4.\<close> Regeneration carries over every entry of the previous tree whose path starts with
  \<open>assets/\<close> and is neither \<open>assets/logo.png\<close> nor \<open>assets/.gitkeep\<close>, with the content it
  had; so does the tree the effect stores whenever it stores one. In particular an entry
  \<open>assets/extra.png\<close> of the previous tree is in the new tree with the same content.
\<close>

theorem C4_regenerate_keeps_assets:
  "(path \<in> set (obj_keys (own prev)) \<and> startsWith path ''assets/''
      \<and> path \<noteq> ''assets/logo.png'' \<and> path \<noteq> ''assets/.gitkeep''
    \<longrightarrow> obj_get (generateFiles js year modData (Some prev)) path = obj_get (own prev) path
        \<and> (\<forall>t. regenerate js year modData (Some prev) = Some t \<longrightarrow> obj_get t path = obj_get (own prev) path))
   \<and> (obj_get (own prev) ''assets/extra.png'' = Some c
    \<longrightarrow> obj_get (generateFiles js year modData (Some prev)) ''assets/extra.png'' = Some c)"
proof -
  have extra: "obj_get (generateFiles js year modData (Some prev)) ''assets/extra.png'' = Some c"
    if "obj_get (own prev) ''assets/extra.png'' = Some c"
  proof -
    from that have "''assets/extra.png'' \<in> set (obj_keys (own prev))"
      using obj_get_keys [of "own prev" "''assets/extra.png''"] by simp
    then show ?thesis
      using generateFiles_assets [of "''assets/extra.png''" prev js year modData] that
      by (simp add: startsWith_def)
  qed
  show ?thesis
    using extra by (auto simp add: generateFiles_assets regenerate_def split: if_splits)
qed

theorem C4_witness:
  "obj_get (generateFiles const_builtins 2024
       (initialModData\<lparr>mod_id := ''a.b'', name := ''N'', developer := ''D''\<rparr>)
       (Some (plain [(''README.md'', Some (JStr ''old'')), (''assets/extra.png'', Some (JStr ''iVBORw0KGgo=''))])))
     ''assets/extra.png'' = Some (Some (JStr ''iVBORw0KGgo=''))"
  using C4_regenerate_keeps_assets [of "''assets/extra.png''"
      "plain [(''README.md'', Some (JStr ''old'')), (''assets/extra.png'', Some (JStr ''iVBORw0KGgo=''))]" const_builtins 2024
      "initialModData\<lparr>mod_id := ''a.b'', name := ''N'', developer := ''D''\<rparr>" "Some (JStr ''iVBORw0KGgo='')"]
  by (simp add: own_plain obj_keys_def obj_get_def startsWith_def)

text \<open>
  \<^bold>\<open>C9.\<close> Every tree built by regeneration holds \<open>assets/.gitkeep\<close> with empty content,
  whatever the logo and whatever the previous tree: also after an asset mutation has
  removed the placeholder from the previous tree and left other assets there.
\<close>

theorem C9_regenerate_restores_placeholder:
  "obj_get (generateFiles js year modData prev) ''assets/.gitkeep'' = Some (Some (JStr ''''))
   \<and> (\<forall>t. regenerate js year modData prev = Some t \<longrightarrow> obj_get t ''assets/.gitkeep'' = Some (Some (JStr '''')))"
  by (auto simp add: generateFiles_gitkeep regenerate_def split: if_splits)

theorem C9_witness:
  "obj_get (mergeAsset (Some (plain [(''assets/.gitkeep'', Some (JStr ''''))])) ''icon.png'' ''iVBORw0KGgo='' ''<plist/>'')
     ''assets/.gitkeep'' = None
   \<and> (\<exists>t. regenerate const_builtins 2024
          (initialModData\<lparr>mod_id := ''a.b'', name := ''N'', developer := ''D'', logo := Some ''data:image/png;base64,AAAA''\<rparr>)
          (Some (plain (mergeAsset (Some (plain [(''assets/.gitkeep'', Some (JStr ''''))])) ''icon.png'' ''iVBORw0KGgo='' ''<plist/>''))) = Some t
        \<and> obj_get t ''assets/.gitkeep'' = Some (Some (JStr '''')))"
proof -
  let ?prev = "mergeAsset (Some (plain [(''assets/.gitkeep'', Some (JStr ''''))])) ''icon.png'' ''iVBORw0KGgo='' ''<plist/>''"
  let ?d = "initialModData\<lparr>mod_id := ''a.b'', name := ''N'', developer := ''D'', logo := Some ''data:image/png;base64,AAAA''\<rparr>"
  have names: "sanitizedFileName ''icon.png'' = ''icon.png''"
    "replaceFirst ''icon.png'' ''.png'' ''.plist'' = ''icon.plist''"
    by code_simp+
  have removed: "obj_get ?prev ''assets/.gitkeep'' = None"
    by (simp add: mergeAsset_def Let_def own_plain obj_get_set obj_get_delete names)
  have stored: "regenerate const_builtins 2024 ?d (Some (plain ?prev)) = Some (generateFiles const_builtins 2024 ?d (Some (plain ?prev)))"
    by (simp add: regenerate_def initialModData_def)
  show ?thesis
    using C9_regenerate_restores_placeholder [of const_builtins 2024 ?d "Some (plain ?prev)"] removed stored
    by simp
qed

section \<open>Determinism of the generator\<close>

lemma update_update_swap:
  "l \<in> fst ` set ob \<Longrightarrow> k \<noteq> l \<Longrightarrow>
     AList.update l w (AList.update k v ob) = AList.update k v (AList.update l w ob)"
  by (induction ob) auto

lemma update_insertIndex:
  assumes "l \<in> fst ` set ob" and "k \<noteq> l"
  shows "AList.update l w (insertIndex k v ob) = insertIndex k v (AList.update l w ob)"
  using assms(1)
proof (induction ob)
  case Nil
  then show ?case by simp
next
  case (Cons a ob)
  obtain a1 b1 where a: "a = (a1, b1)" by (cases a)
  show ?case
  proof (cases "a1 = l")
    case True
    then show ?thesis
      using assms(2) by (simp add: a)
  next
    case False
    then have "l \<in> fst ` set ob"
      using Cons.prems a by auto
    then have "AList.update l w (insertIndex k v ob) = insertIndex k v (AList.update l w ob)"
      by (rule Cons.IH)
    then show ?thesis
      using False assms(2) by (simp add: a)
  qed
qed

lemma update_snoc:
  "l \<in> fst ` set ob \<Longrightarrow> AList.update l w (ob @ [(k, v)]) = AList.update l w ob @ [(k, v)]"
  by (induction ob) auto

lemma update_define:
  assumes "l \<in> set (obj_keys ob)" and "k \<noteq> l"
  shows "AList.update l w (obj_define ob k v) = obj_define (AList.update l w ob) k v"
proof -
  have l: "l \<in> fst ` set ob"
    using assms(1) by (simp add: obj_keys_def)
  have keys: "set (obj_keys (AList.update l w ob)) = set (obj_keys ob)"
    using l by (auto simp add: obj_keys_def update_keys)
  show ?thesis
    unfolding obj_define_def keys
    using l assms(2) by (simp add: update_update_swap update_insertIndex update_snoc)
qed

lemma obj_set_swap_LICENSE:
  assumes "k \<noteq> ''LICENSE''" and "''LICENSE'' \<in> set (obj_keys ob)"
  shows "obj_set (obj_set ob k v) ''LICENSE'' w = obj_set (obj_set ob ''LICENSE'' w) k v"
proof -
  have present: "obj_set x ''LICENSE'' w = AList.update ''LICENSE'' w x"
    if "''LICENSE'' \<in> set (obj_keys x)" for x :: "'a obj"
    using that by (simp add: obj_set_def obj_define_def)
  have keys: "set (obj_keys (AList.update ''LICENSE'' w ob)) = set (obj_keys ob)"
    using assms(2) by (auto simp add: obj_keys_def update_keys)
  have "''LICENSE'' \<in> set (obj_keys (obj_set ob k v))"
    using assms(2) by (simp add: obj_keys_set)
  then have "obj_set (obj_set ob k v) ''LICENSE'' w = AList.update ''LICENSE'' w (obj_set ob k v)"
    by (rule present)
  also have "\<dots> = obj_set (AList.update ''LICENSE'' w ob) k v"
  proof (cases "k = ''__proto__'' \<and> k \<notin> set (obj_keys ob)")
    case True
    then have "obj_set ob k v = ob"
      and "obj_set (AList.update ''LICENSE'' w ob) k v = AList.update ''LICENSE'' w ob"
      using keys by (auto simp add: obj_set_def)
    then show ?thesis
      by simp
  next
    case False
    then have "obj_set ob k v = obj_define ob k v"
      and "obj_set (AList.update ''LICENSE'' w ob) k v = obj_define (AList.update ''LICENSE'' w ob) k v"
      using keys by (auto simp add: obj_set_def)
    then show ?thesis
      using assms by (simp add: update_define)
  qed
  also have "\<dots> = obj_set (obj_set ob ''LICENSE'' w) k v"
    using present [OF assms(2)] by simp
  finally show ?thesis .
qed

lemma keepAsset_LICENSE:
  "''LICENSE'' \<in> set (obj_keys files) \<Longrightarrow>
     obj_set (keepAsset prev k files) ''LICENSE'' w = keepAsset prev k (obj_set files ''LICENSE'' w)"
proof (cases "k = ''LICENSE''")
  case True
  then show ?thesis by (simp add: keepAsset_def startsWith_def)
next
  case False
  assume "''LICENSE'' \<in> set (obj_keys files)"
  with False show ?thesis by (simp add: keepAsset_def obj_set_swap_LICENSE)
qed

lemma keepAsset_keys: "set (obj_keys files) \<subseteq> set (obj_keys (keepAsset prev k files))"
  by (auto simp add: keepAsset_def obj_keys_set)

lemma fold_keepAsset_LICENSE:
  "''LICENSE'' \<in> set (obj_keys files) \<Longrightarrow>
     obj_set (fold (keepAsset prev) ks files) ''LICENSE'' w =
     fold (keepAsset prev) ks (obj_set files ''LICENSE'' w)"
proof (induction ks arbitrary: files)
  case Nil
  then show ?case by simp
next
  case (Cons k ks)
  have "''LICENSE'' \<in> set (obj_keys (keepAsset prev k files))"
    using Cons.prems keepAsset_keys by blast
  then show ?case
    using Cons.prems by (simp add: Cons.IH keepAsset_LICENSE)
qed

lemma generateFiles_year:
  "generateFiles js y1 modData prev =
     obj_set (generateFiles js y2 modData prev) ''LICENSE'' (Some (JStr (generateLicense y1 modData)))"
proof -
  have none: "obj_get [(''mod.json'', a), (''CMakeLists.txt'', b), (''src/main.cpp'', c), (''README.md'', d),
            (''.gitignore'', e), (''LICENSE'', f), (''CONTRIBUTING.md'', g), (''assets/.gitkeep'', h)]
     ''assets/logo.png'' = None" for a b c d e f g h :: "json option"
    by (simp add: obj_get_def)
  have keys: "''LICENSE'' \<in> set (obj_keys [(''mod.json'', a), (''CMakeLists.txt'', b), (''src/main.cpp'', c), (''README.md'', d),
            (''.gitignore'', e), (''LICENSE'', f), (''CONTRIBUTING.md'', g), (''assets/.gitkeep'', h)])"
    for a b c d e f g h :: "json option"
    by (simp add: obj_keys_def)
  have base: "obj_set [(''mod.json'', a), (''CMakeLists.txt'', b), (''src/main.cpp'', c), (''README.md'', d),
            (''.gitignore'', e), (''LICENSE'', f), (''CONTRIBUTING.md'', g), (''assets/.gitkeep'', h)]
            ''LICENSE'' w =
          [(''mod.json'', a), (''CMakeLists.txt'', b), (''src/main.cpp'', c), (''README.md'', d),
            (''.gitignore'', e), (''LICENSE'', w), (''CONTRIBUTING.md'', g), (''assets/.gitkeep'', h)]"
    for a b c d e f g h w :: "json option"
    by (simp add: obj_set_def obj_define_def obj_keys_def)
  show ?thesis
    unfolding generateFiles_def Let_def
    by (cases prev)
       (simp_all add: fold_keepAsset_LICENSE obj_set_swap_LICENSE obj_keys_set keys base
          obj_read_def obj_get_set none truthy_json_def)
qed

lemma files0_LICENSE:
  "obj_get [(''mod.json'', a), (''CMakeLists.txt'', b), (''src/main.cpp'', c), (''README.md'', d),
            (''.gitignore'', e), (''LICENSE'', f), (''CONTRIBUTING.md'', g), (''assets/.gitkeep'', h)]
     ''LICENSE'' = Some f"
  by (simp add: obj_get_def)

lemma generateFiles_LICENSE:
  "obj_get (generateFiles js year modData prev) ''LICENSE'' = Some (Some (JStr (generateLicense year modData)))"
  unfolding generateFiles_def Let_def
  by (simp add: obj_get_fold_keepAsset obj_get_set obj_get_delete files0_LICENSE startsWith_def
      split: option.split)

lemma generateLicense_year:
  "\<exists>post. \<forall>year. generateLicense year modData =
      ''MIT License'' @ nl @ nl @ ''Copyright (c) '' @ string_of_nat year @ post"
  unfolding generateLicense_def Let_def
  by (rule exI, rule allI, rule refl)

text \<open>
  \<^bold>\<open>C3.\<close> Two runs of the generator on the same configuration (and the same previous tree)
  that read different years from the clock build the same tree but for the entry
  \<open>LICENSE\<close>: the tree of one run is the tree of the other with \<open>LICENSE\<close> set to its own
  licence text, and the licence text depends on the year only through the digits after
  \<open>Copyright (c)\<close>. Runs that read the same year build the same tree.
\<close>

theorem C3_generator_deterministic_up_to_year:
  "generateFiles js y1 modData prev =
     obj_set (generateFiles js y2 modData prev) ''LICENSE'' (Some (JStr (generateLicense y1 modData)))
   \<and> obj_get (generateFiles js y2 modData prev) ''LICENSE'' = Some (Some (JStr (generateLicense y2 modData)))
   \<and> (\<exists>post. \<forall>year. generateLicense year modData =
         ''MIT License'' @ nl @ nl @ ''Copyright (c) '' @ string_of_nat year @ post)"
  using generateFiles_year [of js y1 modData prev y2] generateFiles_LICENSE [of js y2 modData prev]
    generateLicense_year [of modData]
  by simp

section \<open>The gate on the required fields\<close>

lemma generateFiles_None_keys:
  "set (obj_keys (generateFiles js year modData None)) \<subseteq>
     set [''mod.json'', ''CMakeLists.txt'', ''src/main.cpp'', ''README.md'', ''.gitignore'',
          ''LICENSE'', ''CONTRIBUTING.md'', ''assets/.gitkeep'', ''.github/workflows/main.yml'',
          ''assets/logo.png'']"
proof -
  have k0: "obj_keys [(''mod.json'', a), (''CMakeLists.txt'', b), (''src/main.cpp'', c), (''README.md'', d),
            (''.gitignore'', e), (''LICENSE'', f), (''CONTRIBUTING.md'', g), (''assets/.gitkeep'', h)] =
      [''mod.json'', ''CMakeLists.txt'', ''src/main.cpp'', ''README.md'', ''.gitignore'',
          ''LICENSE'', ''CONTRIBUTING.md'', ''assets/.gitkeep'']" for a b c d e f g h :: "json option"
    by (simp add: obj_keys_def)
  have none: "obj_get [(''mod.json'', a), (''CMakeLists.txt'', b), (''src/main.cpp'', c), (''README.md'', d),
            (''.gitignore'', e), (''LICENSE'', f), (''CONTRIBUTING.md'', g), (''assets/.gitkeep'', h)]
     ''assets/logo.png'' = None" for a b c d e f g h :: "json option"
    by (simp add: obj_get_def)
  show ?thesis
    unfolding generateFiles_def Let_def
    by (auto simp add: obj_keys_set k0 obj_read_def obj_get_set none truthy_json_def)
qed

text \<open>
  \<^bold>\<open>C5.\<close> After a change of the configuration the tree is the generator's output when
  identifier, name and developer are all non-empty, and absent when one of them is empty.
  Emptying the developer of any configuration gives an absent tree. An identifier that
  fails the form's pattern but is not empty does not stop generation. The replacement is
  full outside the asset directory: there the new tree does not depend on the previous
  one, and without a previous tree the only paths are the generator's ten.
\<close>

theorem C5_required_fields_gate:
  "(mod_id modData \<noteq> [] \<and> name modData \<noteq> [] \<and> developer modData \<noteq> []
      \<longrightarrow> regenerate js year modData prev = Some (generateFiles js year modData prev))
   \<and> (mod_id modData = [] \<or> name modData = [] \<or> developer modData = []
      \<longrightarrow> regenerate js year modData prev = None)
   \<and> regenerate js year (modData\<lparr>developer := ''''\<rparr>) prev = None
   \<and> (\<not> validModId (mod_id modData) \<and> mod_id modData \<noteq> [] \<and> name modData \<noteq> [] \<and> developer modData \<noteq> []
      \<longrightarrow> regenerate js year modData prev \<noteq> None)
   \<and> (\<forall>path. \<not> startsWith path ''assets/'' \<longrightarrow>
         obj_get (generateFiles js year modData prev) path =
         obj_get (generateFiles js year modData None) path)
   \<and> set (obj_keys (generateFiles js year modData None)) \<subseteq>
         set [''mod.json'', ''CMakeLists.txt'', ''src/main.cpp'', ''README.md'', ''.gitignore'',
              ''LICENSE'', ''CONTRIBUTING.md'', ''assets/.gitkeep'', ''.github/workflows/main.yml'',
              ''assets/logo.png'']"
proof -
  have untouched: "\<forall>path. \<not> startsWith path ''assets/'' \<longrightarrow>
         obj_get (generateFiles js year modData prev) path =
         obj_get (generateFiles js year modData None) path"
    using generateFiles_non_assets by blast
  show ?thesis
    using untouched generateFiles_None_keys [of js year modData]
    by (simp add: regenerate_def)
qed

theorem C5_witness:
  "\<not> validModId ''Not An Id''
   \<and> regenerate const_builtins 2024
        (initialModData\<lparr>mod_id := ''Not An Id'', name := ''N'', developer := ''D''\<rparr>)
        (Some (plain [(''src/old.cpp'', Some (JStr ''x''))]))
      = Some (generateFiles const_builtins 2024
          (initialModData\<lparr>mod_id := ''Not An Id'', name := ''N'', developer := ''D''\<rparr>)
          (Some (plain [(''src/old.cpp'', Some (JStr ''x''))])))
   \<and> regenerate const_builtins 2024
        (initialModData\<lparr>mod_id := ''Not An Id'', name := ''N'', developer := ''D'', developer := ''''\<rparr>)
        (Some (plain [(''src/old.cpp'', Some (JStr ''x''))])) = None
   \<and> obj_get (generateFiles const_builtins 2024
          (initialModData\<lparr>mod_id := ''Not An Id'', name := ''N'', developer := ''D''\<rparr>)
          (Some (plain [(''src/old.cpp'', Some (JStr ''x''))]))) ''src/old.cpp'' = None"
proof -
  let ?d = "initialModData\<lparr>mod_id := ''Not An Id'', name := ''N'', developer := ''D''\<rparr>"
  let ?prev = "Some (plain [(''src/old.cpp'', Some (JStr ''x''))])"
  have bad: "\<not> validModId ''Not An Id''"
    by code_simp
  have path: "\<not> startsWith ''src/old.cpp'' ''assets/''"
    by (simp add: startsWith_def)
  note gate = C5_required_fields_gate [of ?d const_builtins 2024 ?prev]
  have stored: "regenerate const_builtins 2024 ?d ?prev = Some (generateFiles const_builtins 2024 ?d ?prev)"
    using gate bad by simp
  have cleared: "regenerate const_builtins 2024 (?d\<lparr>developer := ''''\<rparr>) ?prev = None"
    using gate by blast
  have same: "obj_get (generateFiles const_builtins 2024 ?d ?prev) ''src/old.cpp'' =
      obj_get (generateFiles const_builtins 2024 ?d None) ''src/old.cpp''"
    using gate path by blast
  have "''src/old.cpp'' \<notin> set (obj_keys (generateFiles const_builtins 2024 ?d None))"
    using gate by auto
  then have "obj_get (generateFiles const_builtins 2024 ?d None) ''src/old.cpp'' = None"
    using obj_get_keys [of "generateFiles const_builtins 2024 ?d None" "''src/old.cpp''"] by blast
  with bad stored cleared same show ?thesis
    by simp
qed

section \<open>Mutations issued by the assistant\<close>



lemma tree_set_keys: "set (obj_keys (own t)) \<subseteq> set (obj_keys (own (tree_set t k v)))"
  by (auto simp add: tree_set_def obj_keys_define split: option.split json.split)

lemma mergeFile_null: "mergeFile js JNull t = Inl TypeError"
  by (simp add: mergeFile_def property_def)

lemma mergeFile_eq:
  "file \<noteq> JNull \<Longrightarrow>
     mergeFile js file t =
       (if truthy_json (field file ''filePath'') \<and> truthy_json (field file ''fileContent'')
        then (case field file ''filePath'' of
                None \<Rightarrow> Inr t
              | Some p \<Rightarrow>
                  (case ToString js p of
                     Inl e \<Rightarrow> Inl e
                   | Inr key \<Rightarrow> Inr (tree_set t key (field file ''fileContent''))))
        else Inr t)"
  by (simp add: mergeFile_def property_def split: option.splits)





lemma mergeFile_keys:
  assumes "mergeFile js file t = Inr t'"
  shows "set (obj_keys (own t)) \<subseteq> set (obj_keys (own t'))"
proof (cases "file = JNull")
  case True
  with assms show ?thesis by (simp add: mergeFile_null)
next
  case False
  with assms show ?thesis
    using tree_set_keys by (auto simp add: mergeFile_eq split: option.splits if_splits sum.splits)
qed

lemma mergeFiles_Cons:
  "mergeFiles js (f # files) t = Inr t' \<longleftrightarrow>
     (\<exists>t1. mergeFile js f t = Inr t1 \<and> mergeFiles js files t1 = Inr t')"
  by (auto split: sum.splits)

lemma mergeFiles_null: "JNull \<in> set files \<Longrightarrow> mergeFiles js files t = Inl TypeError"
proof (induction files arbitrary: t)
  case Nil
  then show ?case by simp
next
  case (Cons f files)
  show ?case
  proof (cases "mergeFile js f t")
    case (Inl e)
    then show ?thesis
      by (cases e) simp
  next
    case (Inr t1)
    then have "f \<noteq> JNull"
      by (auto simp add: mergeFile_null)
    with Cons.prems have "JNull \<in> set files" by simp
    then show ?thesis
      using Inr by (simp add: Cons.IH)
  qed
qed





lemma mergeFiles_keys:
  "mergeFiles js files t = Inr t' \<Longrightarrow> set (obj_keys (own t)) \<subseteq> set (obj_keys (own t'))"
proof (induction files arbitrary: t)
  case Nil
  then show ?case by simp
next
  case (Cons f files)
  from Cons.prems obtain t1 where t1: "mergeFile js f t = Inr t1" and rest: "mergeFiles js files t1 = Inr t'"
    unfolding mergeFiles_Cons by blast
  from mergeFile_keys [OF t1] Cons.IH [OF rest] show ?case
    by blast
qed

lemma mergeMany_keeps_keys:
  "mergeMany js (Some prev) files = Inr t' \<Longrightarrow> set (obj_keys (own prev)) \<subseteq> set (obj_keys (own t'))"
  using mergeFiles_keys [of js files "plain (own prev)" t'] by (simp add: mergeMany_def plain_def)


text \<open>An entry for \<open>__proto__\<close> whose content is an object is not stored under a path: the
  object becomes the prototype, and the loops over the tree then visit what it holds.
  When that object itself owns a property \<open>__proto__\<close>, a later entry for \<open>__proto__\<close>
  is stored as a property of the tree. An entry whose path is an object owning a property
  \<open>toString\<close> ends the update with an exception.\<close>

lemma mergeMany_prototype:
  "mergeMany js None
     [JObj [(''filePath'', JStr ''__proto__''),
            (''fileContent'', JObj [(''assets/x.png'', JStr ''AAAA'')])]]
     = Inr \<lparr>own = [], proto = Parsed (JObj [(''assets/x.png'', JStr ''AAAA'')])\<rparr>
   \<and> forIn \<lparr>own = [], proto = Parsed (JObj [(''assets/x.png'', JStr ''AAAA'')])\<rparr> = [''assets/x.png'']
   \<and> tree_get \<lparr>own = [], proto = Parsed (JObj [(''assets/x.png'', JStr ''AAAA'')])\<rparr> ''assets/x.png''
       = Some (JStr ''AAAA'')
   \<and> mergeMany js None
     [JObj [(''filePath'', JStr ''__proto__''), (''fileContent'', JObj [(''__proto__'', JNull)])],
      JObj [(''filePath'', JStr ''__proto__''), (''fileContent'', JStr ''x'')]]
     = Inr \<lparr>own = [(''__proto__'', Some (JStr ''x''))], proto = Parsed (JObj [(''__proto__'', JNull)])\<rparr>
   \<and> mergeMany js None
     [JObj [(''filePath'', JObj [(''toString'', JStr ''a.txt'')]), (''fileContent'', JStr ''x'')]]
     = Inl TypeError"
  by (simp add: mergeMany_def mergeFile_eq field_def obj_get_def truthy_json_def tree_set_def
      obj_keys_def obj_define_def isArrayIndex_def char_in_def plain_def forIn_def tree_get_def obj_read_def)








text \<open>
  \<^bold>\<open>C1.\<close> A multi-file response with an entry under \<open>assets/\<close>, applied to a tree that
  holds the placeholder: the entry is written and \<open>assets/.gitkeep\<close> is still there. The
  update after the asset tool call, on the same tree, does remove it.
\<close>

theorem C1_batch_under_assets_keeps_placeholder:
  "mergeMany js (Some (plain [(''mod.json'', Some (JStr ''{}'')), (''assets/.gitkeep'', Some (JStr ''''))]))
       [JObj [(''filePath'', JStr ''assets/extra.plist''), (''fileContent'', JStr ''<plist/>'')]]
     = Inr (plain [(''mod.json'', Some (JStr ''{}'')), (''assets/.gitkeep'', Some (JStr '''')),
                   (''assets/extra.plist'', Some (JStr ''<plist/>''))])
   \<and> obj_get [(''mod.json'', Some (JStr ''{}'')), (''assets/.gitkeep'', Some (JStr '''')),
              (''assets/extra.plist'', Some (JStr ''<plist/>''))]
       ''assets/.gitkeep'' = Some (Some (JStr ''''))
   \<and> obj_get [(''mod.json'', Some (JStr ''{}'')), (''assets/.gitkeep'', Some (JStr '''')),
              (''assets/extra.plist'', Some (JStr ''<plist/>''))]
       ''assets/extra.plist'' = Some (Some (JStr ''<plist/>''))
   \<and> obj_get (mergeAsset (Some (plain [(''mod.json'', Some (JStr ''{}'')), (''assets/.gitkeep'', Some (JStr ''''))]))
       ''extra.png'' ''iVBORw0KGgo='' ''<plist/>'')
     ''assets/.gitkeep'' = None"
proof -
  have names: "sanitizedFileName ''extra.png'' = ''extra.png''"
    "replaceFirst ''extra.png'' ''.png'' ''.plist'' = ''extra.plist''"
    by code_simp+
  have index: "\<not> isArrayIndex ''assets/extra.plist''"
    by (simp add: isArrayIndex_def char_in_def)
  have merged: "mergeMany js (Some (plain [(''mod.json'', Some (JStr ''{}'')), (''assets/.gitkeep'', Some (JStr ''''))]))
       [JObj [(''filePath'', JStr ''assets/extra.plist''), (''fileContent'', JStr ''<plist/>'')]]
     = Inr (plain [(''mod.json'', Some (JStr ''{}'')), (''assets/.gitkeep'', Some (JStr '''')),
                   (''assets/extra.plist'', Some (JStr ''<plist/>''))])"
    using index
    by (simp add: mergeMany_def mergeFile_eq field_def obj_get_def truthy_json_def
        tree_set_def obj_define_def obj_keys_def plain_def)
  have asset: "obj_get (mergeAsset (Some (plain [(''mod.json'', Some (JStr ''{}'')), (''assets/.gitkeep'', Some (JStr ''''))]))
       ''extra.png'' ''iVBORw0KGgo='' ''<plist/>'')
     ''assets/.gitkeep'' = None"
    by (simp add: mergeAsset_def Let_def own_plain obj_get_set obj_get_delete names)
  from merged asset show ?thesis
    by (simp add: obj_get_def)
qed

section \<open>The dependency parser\<close>

lemma lastIndexOf_absent: "c \<notin> set s \<Longrightarrow> lastIndexOf s c = - 1"
  by (induction s) auto

lemma lastIndexOf_last:
  "c \<notin> set post \<Longrightarrow> lastIndexOf (pre @ c # post) c = int (length pre)"
  by (induction pre) (simp_all add: lastIndexOf_absent)

lemma parseDependency_split:
  assumes "CHR ''@'' \<notin> set post" and "pre \<noteq> []"
  shows "parseDependency (pre @ CHR ''@'' # post) =
     JObj [(''id'', JStr pre), (''required'', JBool True),
           (''version'', JStr (if post = [] then ''*'' else post))]"
proof -
  have at: "lastIndexOf (pre @ CHR ''@'' # post) (CHR ''@'') = int (length pre)"
    using assms(1) by (rule lastIndexOf_last)
  have pos: "0 < int (length pre)"
    using assms(2) by simp
  have next_index: "nat (int (length pre) + 1) = Suc (length pre)"
    by simp
  show ?thesis
    unfolding parseDependency_def Let_def at
    using pos by (simp add: substring_def substringFrom_def clamp_index_def or_str_def next_index)
qed

lemma parseDependency_whole:
  assumes "CHR ''@'' \<notin> set tok \<or> (\<exists>rest. tok = CHR ''@'' # rest \<and> CHR ''@'' \<notin> set rest)"
  shows "parseDependency tok =
     JObj [(''id'', JStr tok), (''required'', JBool True), (''version'', JStr ''*'')]"
proof -
  have "lastIndexOf tok (CHR ''@'') \<le> 0"
    using assms lastIndexOf_absent [of "CHR ''@''" tok] lastIndexOf_last [of "CHR ''@''" _ "[]"]
    by auto
  then show ?thesis
    by (simp add: parseDependency_def Let_def)
qed

text \<open>
  \<^bold>\<open>C2.\<close> A dependency token is split at its last \<open>@\<close>. When that \<open>@\<close> is not the first
  character, the identifier is what precedes it and the version what follows it, or \<open>*\<close>
  when nothing follows. When the token has no \<open>@\<close>, or only one as its first character,
  the identifier is the whole token and the version \<open>*\<close>. \<open>required\<close> is always
  \<open>true\<close>. The three tokens of the specification give the three objects it lists.
\<close>

theorem C2_dependency_split_at_last_at:
  "(tok = pre @ CHR ''@'' # post \<and> CHR ''@'' \<notin> set post \<and> pre \<noteq> []
      \<longrightarrow> parseDependency tok =
            JObj [(''id'', JStr pre), (''required'', JBool True),
                  (''version'', JStr (if post = [] then ''*'' else post))])
   \<and> (CHR ''@'' \<notin> set tok \<or> (\<exists>rest. tok = CHR ''@'' # rest \<and> CHR ''@'' \<notin> set rest)
      \<longrightarrow> parseDependency tok =
            JObj [(''id'', JStr tok), (''required'', JBool True), (''version'', JStr ''*'')])
   \<and> (\<exists>i v. parseDependency tok = JObj [(''id'', JStr i), (''required'', JBool True), (''version'', JStr v)])
   \<and> parseDependency ''a.b.c@^1.2.0'' =
        JObj [(''id'', JStr ''a.b.c''), (''required'', JBool True), (''version'', JStr ''^1.2.0'')]
   \<and> parseDependency ''a.b.c'' =
        JObj [(''id'', JStr ''a.b.c''), (''required'', JBool True), (''version'', JStr ''*'')]
   \<and> parseDependency ''@scoped.id@2.0'' =
        JObj [(''id'', JStr ''@scoped.id''), (''required'', JBool True), (''version'', JStr ''2.0'')]"
proof -
  have shape: "\<exists>i v. parseDependency tok = JObj [(''id'', JStr i), (''required'', JBool True), (''version'', JStr v)]"
    by (simp add: parseDependency_def Let_def)
  have e1: "parseDependency ''a.b.c@^1.2.0'' =
        JObj [(''id'', JStr ''a.b.c''), (''required'', JBool True), (''version'', JStr ''^1.2.0'')]"
    using parseDependency_split [of "''^1.2.0''" "''a.b.c''"] by simp
  have e2: "parseDependency ''a.b.c'' =
        JObj [(''id'', JStr ''a.b.c''), (''required'', JBool True), (''version'', JStr ''*'')]"
    using parseDependency_whole [of "''a.b.c''"] by simp
  have e3: "parseDependency ''@scoped.id@2.0'' =
        JObj [(''id'', JStr ''@scoped.id''), (''required'', JBool True), (''version'', JStr ''2.0'')]"
    using parseDependency_split [of "''2.0''" "''@scoped.id''"] by simp
  show ?thesis
    using parseDependency_split [of post pre] parseDependency_whole [of tok] shape e1 e2 e3
    by blast
qed

theorem C2_witness:
  "parseDependency ''geode.node-ids@>=1.0.0'' =
     JObj [(''id'', JStr ''geode.node-ids''), (''required'', JBool True), (''version'', JStr ''>=1.0.0'')]
   \<and> parseDependency ''@lead'' =
     JObj [(''id'', JStr ''@lead''), (''required'', JBool True), (''version'', JStr ''*'')]
   \<and> parseDependency ''trailing@'' =
     JObj [(''id'', JStr ''trailing''), (''required'', JBool True), (''version'', JStr ''*'')]"
proof -
  have a: "parseDependency ''geode.node-ids@>=1.0.0'' =
     JObj [(''id'', JStr ''geode.node-ids''), (''required'', JBool True), (''version'', JStr ''>=1.0.0'')]"
    using C2_dependency_split_at_last_at [of "''geode.node-ids@>=1.0.0''" "''geode.node-ids''" "''>=1.0.0''",
        THEN conjunct1]
    by simp
  have b: "parseDependency ''@lead'' =
     JObj [(''id'', JStr ''@lead''), (''required'', JBool True), (''version'', JStr ''*'')]"
    using C2_dependency_split_at_last_at [of "''@lead''" "[]" "[]", THEN conjunct2, THEN conjunct1]
    by simp
  have c: "parseDependency ''trailing@'' =
     JObj [(''id'', JStr ''trailing''), (''required'', JBool True), (''version'', JStr ''*'')]"
    using C2_dependency_split_at_last_at [of "''trailing@''" "''trailing''" "[]", THEN conjunct1]
    by simp
  from a b c show ?thesis by simp
qed


section \<open>The platform map of the manifest\<close>

lemma modJson_gd: "obj_get (modJson js data) ''gd'' = Some (JObj (generateModJson_gd data))"
  unfolding modJson_def Let_def
  by (simp add: obj_get_set) (simp add: obj_get_def)

text \<open>
  \<^bold>\<open>C7.\<close> The keys of \<open>gd\<close> in the manifest are exactly the enabled platforms, whatever
  the four booleans, and each key holds the target game version, or \<open>*\<close> when that string
  is empty. This object is the \<open>gd\<close> field of the object that is serialised.
\<close>

theorem C7_platform_map:
  "set (obj_keys (generateModJson_gd data)) =
       (if win (platforms data) then {''win''} else {})
     \<union> (if mac (platforms data) then {''mac''} else {})
     \<union> (if android (platforms data) then {''android''} else {})
     \<union> (if ios (platforms data) then {''ios''} else {})
   \<and> (\<forall>k \<in> set (obj_keys (generateModJson_gd data)).
         obj_get (generateModJson_gd data) k =
           Some (JStr (if gdVersion data = [] then ''*'' else gdVersion data)))
   \<and> obj_get (modJson js data) ''gd'' = Some (JObj (generateModJson_gd data))
   \<and> generateModJson js data = JSON_stringify js (JObj (modJson js data))"
proof -
  have keys: "set (obj_keys (generateModJson_gd data)) =
       (if win (platforms data) then {''win''} else {})
     \<union> (if mac (platforms data) then {''mac''} else {})
     \<union> (if android (platforms data) then {''android''} else {})
     \<union> (if ios (platforms data) then {''ios''} else {})"
    unfolding generateModJson_gd_def Let_def
    by (simp add: obj_keys_set) (simp add: obj_keys_def)
  have "obj_get (generateModJson_gd data) k = Some (JStr (if gdVersion data = [] then ''*'' else gdVersion data))"
    if "k \<in> set (obj_keys (generateModJson_gd data))" for k
    using that unfolding keys
    unfolding generateModJson_gd_def Let_def
    by (auto simp add: obj_get_set or_str_def split: if_splits)
  then show ?thesis
    using keys modJson_gd [of js data] by (simp add: generateModJson_def)
qed

theorem C7_witness:
  "set (obj_keys (generateModJson_gd (initialModData\<lparr>gdVersion := ''''\<rparr>))) = {''win'', ''mac'', ''android''}
   \<and> obj_get (generateModJson_gd (initialModData\<lparr>gdVersion := ''''\<rparr>)) ''android'' = Some (JStr ''*'')
   \<and> obj_get (generateModJson_gd (initialModData\<lparr>gdVersion := ''''\<rparr>)) ''ios'' = None"
proof -
  let ?d = "initialModData\<lparr>gdVersion := ''''\<rparr>"
  note map = C7_platform_map [of ?d const_builtins]
  have keys: "set (obj_keys (generateModJson_gd ?d)) = {''win'', ''mac'', ''android''}"
    using map by (auto simp add: initialModData_def)
  have "obj_get (generateModJson_gd ?d) ''android'' = Some (JStr (if gdVersion ?d = [] then ''*'' else gdVersion ?d))"
    using map keys by blast
  then have android: "obj_get (generateModJson_gd ?d) ''android'' = Some (JStr ''*'')"
    by simp
  have "''ios'' \<notin> set (obj_keys (generateModJson_gd ?d))"
    unfolding keys by simp
  then have ios: "obj_get (generateModJson_gd ?d) ''ios'' = None"
    using obj_get_keys [of "generateModJson_gd ?d" "''ios''"] by blast
  from keys android ios show ?thesis by blast
qed


section \<open>The default of a custom setting\<close>

lemma updatedSetting_type:
  "updatedSetting (Set_type t) s =
     s\<lparr>s_type := t,
       s_default := (case t of Bool_t \<Rightarrow> VBool False | Int_t \<Rightarrow> VNumber (Finite 0)
                     | Float_t \<Rightarrow> VNumber (Finite 0) | String_t \<Rightarrow> VString '''')\<rparr>"
  by (cases t) (simp_all add: updatedSetting_def)

text \<open>
  \<^bold>\<open>C8.\<close> Changing the type of a setting sets its default to the zero of the new type:
  \<open>false\<close>, \<open>0\<close>, \<open>0.0\<close> (the same number) or the empty string. Every setting with the
  given identity gets the new type and that default, whatever its default was, and the
  other settings are left as they were. From string to integer the default becomes \<open>0\<close>,
  from boolean to float \<open>0.0\<close>.
\<close>

theorem C8_type_change_resets_default:
  "settings (handleSettingChange modData ident (Set_type t)) =
     map (\<lambda>s. if s_id s = ident
               then s\<lparr>s_type := t,
                      s_default := (case t of Bool_t \<Rightarrow> VBool False | Int_t \<Rightarrow> VNumber (Finite 0)
                                    | Float_t \<Rightarrow> VNumber (Finite 0) | String_t \<Rightarrow> VString '''')\<rparr>
               else s)
         (settings modData)
   \<and> (\<forall>s' \<in> set (settings (handleSettingChange modData ident (Set_type t))).
         s_id s' = ident \<longrightarrow>
           s_type s' = t
           \<and> s_default s' = (case t of Bool_t \<Rightarrow> VBool False | Int_t \<Rightarrow> VNumber (Finite 0)
                               | Float_t \<Rightarrow> VNumber (Finite 0) | String_t \<Rightarrow> VString ''''))
   \<and> (s_id s = ident \<and> s_type s = String_t \<longrightarrow>
         s_default (updatedSetting (Set_type Int_t) s) = VNumber (Finite 0))
   \<and> (s_id s = ident \<and> s_type s = Bool_t \<longrightarrow>
         s_default (updatedSetting (Set_type Float_t) s) = VNumber (Finite 0.0))"
proof -
  have list: "settings (handleSettingChange modData ident (Set_type t)) =
     map (\<lambda>s. if s_id s = ident
               then s\<lparr>s_type := t,
                      s_default := (case t of Bool_t \<Rightarrow> VBool False | Int_t \<Rightarrow> VNumber (Finite 0)
                                    | Float_t \<Rightarrow> VNumber (Finite 0) | String_t \<Rightarrow> VString '''')\<rparr>
               else s)
         (settings modData)"
    by (simp add: handleSettingChange_def updatedSetting_type)
  have each: "s_type s' = t
           \<and> s_default s' = (case t of Bool_t \<Rightarrow> VBool False | Int_t \<Rightarrow> VNumber (Finite 0)
                               | Float_t \<Rightarrow> VNumber (Finite 0) | String_t \<Rightarrow> VString [])"
    if mem: "s' \<in> set (settings (handleSettingChange modData ident (Set_type t)))" and eq: "s_id s' = ident" for s'
  proof -
    from mem obtain x where x: "x \<in> set (settings modData)"
      and s': "s' = (if s_id x = ident then updatedSetting (Set_type t) x else x)"
      by (auto simp add: handleSettingChange_def)
    show ?thesis
    proof (cases "s_id x = ident")
      case True
      with s' show ?thesis by (simp add: updatedSetting_type)
    next
      case False
      with s' eq show ?thesis by simp
    qed
  qed
  have e1: "s_default (updatedSetting (Set_type Int_t) s) = VNumber (Finite 0)"
    by (simp add: updatedSetting_type)
  have e2: "s_default (updatedSetting (Set_type Float_t) s) = VNumber (Finite 0.0)"
    by (simp add: updatedSetting_type)
  from list each e1 e2 show ?thesis
    by blast
qed

theorem C8_witness:
  "settings (handleSettingChange initialModData ''setting-initial-1'' (Set_type Int_t)) =
     [\<lparr>s_id = ''setting-initial-1'', s_key = ''welcome_message'', s_name = ''Welcome Message'',
       s_description = ''The message to display on startup'',
       s_type = Int_t, s_default = VNumber (Finite 0)\<rparr>]
   \<and> s_default (updatedSetting (Set_type Float_t)
        \<lparr>s_id = ''s2'', s_key = ''k'', s_name = ''n'', s_description = ''d'',
         s_type = Bool_t, s_default = VBool True\<rparr>) = VNumber (Finite 0.0)"
proof -
  have a: "settings (handleSettingChange initialModData ''setting-initial-1'' (Set_type Int_t)) =
     [\<lparr>s_id = ''setting-initial-1'', s_key = ''welcome_message'', s_name = ''Welcome Message'',
       s_description = ''The message to display on startup'',
       s_type = Int_t, s_default = VNumber (Finite 0)\<rparr>]"
    using C8_type_change_resets_default [of initialModData "''setting-initial-1''" Int_t,
        THEN conjunct1]
    by (simp add: initialModData_def)
  have b: "s_default (updatedSetting (Set_type Float_t)
        \<lparr>s_id = ''s2'', s_key = ''k'', s_name = ''n'', s_description = ''d'',
         s_type = Bool_t, s_default = VBool True\<rparr>) = VNumber (Finite 0.0)"
    using C8_type_change_resets_default [of initialModData "''s2''" Bool_t
        "\<lparr>s_id = ''s2'', s_key = ''k'', s_name = ''n'', s_description = ''d'',
         s_type = Bool_t, s_default = VBool True\<rparr>",
        THEN conjunct2, THEN conjunct2, THEN conjunct2]
    by simp
  from a b show ?thesis by blast
qed


section \<open>Text and binary entries of the archive\<close>

lemma endsWith_iff: "endsWith s e \<longleftrightarrow> (\<exists>q. s = q @ e)"
proof
  assume "endsWith s e"
  then have "s = take (length s - length e) s @ e"
    by (metis append_take_drop_id endsWith_def)
  then show "\<exists>q. s = q @ e" ..
next
  assume "\<exists>q. s = q @ e"
  then show "endsWith s e"
    by (auto simp add: endsWith_def)
qed

lemma afterLast_append:
  assumes "c \<notin> set t"
  shows "afterLast c (q @ t) = afterLast c q @ t"
proof -
  have "x \<noteq> c" if "x \<in> set (rev t)" for x
    using that assms by auto
  then have "takeWhile (\<lambda>x. x \<noteq> c) (rev t @ rev q) = rev t @ takeWhile (\<lambda>x. x \<noteq> c) (rev q)"
    by (rule takeWhile_append2)
  then show ?thesis
    by (simp add: afterLast_def)
qed

lemma afterLast_last: "c \<notin> set t \<Longrightarrow> afterLast c (n @ c # t) = t"
proof -
  assume "c \<notin> set t"
  then have "x \<noteq> c" if "x \<in> set (rev t)" for x
    using that by auto
  then have "takeWhile (\<lambda>x. x \<noteq> c) (rev t @ c # rev n) = rev t @ takeWhile (\<lambda>x. x \<noteq> c) (c # rev n)"
    by (rule takeWhile_append2)
  then have "takeWhile (\<lambda>x. x \<noteq> c) (rev t @ c # rev n) = rev t"
    by simp
  then show ?thesis
    by (simp add: afterLast_def)
qed

lemma afterLast_suffix: "\<exists>q. s = q @ afterLast c s"
proof -
  have "rev s = takeWhile (\<lambda>x. x \<noteq> c) (rev s) @ dropWhile (\<lambda>x. x \<noteq> c) (rev s)"
    by simp
  then have "s = rev (dropWhile (\<lambda>x. x \<noteq> c) (rev s)) @ afterLast c s"
    unfolding afterLast_def by (metis rev_append rev_rev_ident)
  then show ?thesis ..
qed

lemma afterLast_split: "c \<in> set s \<Longrightarrow> \<exists>n. s = n @ c # afterLast c s"
proof -
  assume "c \<in> set s"
  then have "c \<in> set (rev s)" by simp
  then obtain r where r: "dropWhile (\<lambda>x. x \<noteq> c) (rev s) = c # r"
    by (metis (mono_tags, lifting) dropWhile_eq_Nil_conv hd_dropWhile list.collapse)
  have "rev s = takeWhile (\<lambda>x. x \<noteq> c) (rev s) @ dropWhile (\<lambda>x. x \<noteq> c) (rev s)"
    by simp
  then have "rev s = takeWhile (\<lambda>x. x \<noteq> c) (rev s) @ c # r"
    using r by simp
  then have "s = rev r @ c # afterLast c s"
    unfolding afterLast_def by (metis rev.simps(2) rev_append rev_rev_ident append.assoc append_Cons append_Nil)
  then show ?thesis ..
qed

lemma endsWith_extension:
  assumes "CHR ''.'' \<notin> set e" and "CHR ''/'' \<notin> set e"
  shows "endsWith path (CHR ''.'' # e) \<longleftrightarrow> extension (fileName path) = CHR ''.'' # e"
proof
  assume "endsWith path (CHR ''.'' # e)"
  then obtain q where "path = q @ CHR ''.'' # e"
    using endsWith_iff by blast
  then have name: "fileName path = afterLast (CHR ''/'') q @ CHR ''.'' # e"
    using assms(2) by (simp add: fileName_def afterLast_append)
  then show "extension (fileName path) = CHR ''.'' # e"
    using assms(1) by (simp add: extension_def afterLast_last)
next
  assume ext: "extension (fileName path) = CHR ''.'' # e"
  then have dot: "CHR ''.'' \<in> set (fileName path)"
    by (auto simp add: extension_def split: if_splits)
  with ext have e: "afterLast (CHR ''.'') (fileName path) = e"
    by (simp add: extension_def)
  obtain n where "fileName path = n @ CHR ''.'' # e"
    using afterLast_split [OF dot] e by auto
  moreover obtain q where "path = q @ fileName path"
    using afterLast_suffix [of path "CHR ''/''"] by (auto simp add: fileName_def)
  ultimately have "path = (q @ n) @ CHR ''.'' # e"
    by simp
  then show "endsWith path (CHR ''.'' # e)"
    using endsWith_iff by blast
qed

lemma isTextFile_iff:
  "isTextFile path \<longleftrightarrow>
     extension (fileName path) \<in> set [''.json'', ''.txt'', ''.cpp'', ''.md'', ''.yml'', ''.gitignore'', ''.plist'']
     \<or> endsWith path ''LICENSE'' \<or> endsWith path ''.gitkeep''"
proof -
  have "endsWith path ''.json'' \<longleftrightarrow> extension (fileName path) = ''.json''"
    "endsWith path ''.txt'' \<longleftrightarrow> extension (fileName path) = ''.txt''"
    "endsWith path ''.cpp'' \<longleftrightarrow> extension (fileName path) = ''.cpp''"
    "endsWith path ''.md'' \<longleftrightarrow> extension (fileName path) = ''.md''"
    "endsWith path ''.yml'' \<longleftrightarrow> extension (fileName path) = ''.yml''"
    "endsWith path ''.gitignore'' \<longleftrightarrow> extension (fileName path) = ''.gitignore''"
    "endsWith path ''.plist'' \<longleftrightarrow> extension (fileName path) = ''.plist''"
    by (rule endsWith_extension; simp)+
  then show ?thesis
    unfolding isTextFile_def by auto
qed


lemma fileName_endsWith: "fileName path = nm \<Longrightarrow> endsWith path nm"
  using afterLast_suffix [of path "CHR ''/''"] endsWith_iff [of path nm]
  by (auto simp add: fileName_def)

lemma spec_isTextEntry_isTextFile: "spec_isTextEntry path \<Longrightarrow> isTextFile path"
  unfolding spec_isTextEntry_def isTextFile_iff
  using fileName_endsWith by blast

text \<open>
  \<^bold>\<open>C6.\<close> As the specification words it the rule fails: \<open>UNLICENSE\<close> and
  \<open>notes.gitkeep\<close> are written as text though neither has a listed extension nor is named
  exactly \<open>LICENSE\<close> or \<open>.gitkeep\<close>, and an entry whose content is \<open>undefined\<close> is not
  written at all.
\<close>

theorem C6_counterexample:
  "addFileToZip ''UNLICENSE'' (Some (JStr ''public domain'')) [] = [TextFile ''UNLICENSE'' (JStr ''public domain'')]
   \<and> \<not> spec_isTextEntry ''UNLICENSE''
   \<and> addFileToZip ''notes.gitkeep'' (Some (JStr ''x'')) [] = [TextFile ''notes.gitkeep'' (JStr ''x'')]
   \<and> \<not> spec_isTextEntry ''notes.gitkeep''
   \<and> addFileToZip ''assets/logo.png'' None [] = []"
proof -
  have t1: "isTextFile ''UNLICENSE''" and t2: "isTextFile ''notes.gitkeep''"
    by (simp_all add: isTextFile_def endsWith_def)
  have s1: "\<not> spec_isTextEntry ''UNLICENSE''" and s2: "\<not> spec_isTextEntry ''notes.gitkeep''"
    by (simp_all add: spec_isTextEntry_def fileName_def extension_def afterLast_def)
  from t1 t2 s1 s2 show ?thesis
    by (simp add: addFileToZip_def)
qed

text \<open>
  \<^bold>\<open>C6\<close>, amended. An entry with a content is written as text when the extension of its
  name is one of the seven listed or its path ends with \<open>LICENSE\<close> or \<open>.gitkeep\<close>, and as
  base64 otherwise; an entry without a content is skipped.
\<close>

theorem C6_archive_text_by_suffix:
  "addFileToZip path (Some content) archive =
     archive @ [if extension (fileName path) \<in>
                     set [''.json'', ''.txt'', ''.cpp'', ''.md'', ''.yml'', ''.gitignore'', ''.plist'']
                   \<or> endsWith path ''LICENSE'' \<or> endsWith path ''.gitkeep''
                then TextFile path content else Base64File path content]
   \<and> addFileToZip path None archive = archive"
  using isTextFile_iff [of path]
  by (simp add: addFileToZip_def)


end
